theory Spec2Isabelle
  imports Main
begin

section \<open>Data model (src/model/interfaces.ts)\<close>

text \<open>
  JavaScript numbers that hold product ids, quantities and item counts are modelled as
  \<^typ>\<open>int\<close>; HTTP status codes as \<^typ>\<open>nat\<close>. A value that may be \<^verbatim>\<open>null\<close> is an
  \<^typ>\<open>'a option\<close>. Only the fields that the basket code reads are kept in the records.
\<close>

record Business =
  business_id :: int
  name :: string
  home_url :: string

text \<open>
  \<^verbatim>\<open>LineItem\<close>: a cart line has \<^verbatim>\<open>id\<close> (the product id), the server-assigned \<^verbatim>\<open>key\<close> and
  \<^verbatim>\<open>quantity\<close>; the line items of a previous order, which \<^verbatim>\<open>reorderItems\<close> receives under
  the same interface, carry \<^verbatim>\<open>product_id\<close> and \<^verbatim>\<open>quantity\<close>.
\<close>

record LineItem =
  item_id :: int
  key :: string
  product_id :: int
  quantity :: int

record Cart =
  items :: "LineItem list"
  items_count :: int

record Address =
  first_name :: string
  last_name :: string
  address_1 :: string
  address_2 :: string
  city :: string
  state :: string
  postcode :: string
  country :: string

record CheckoutPayload =
  billing_address :: Address
  shipping_address :: "Address option"
  payment_method :: string

text \<open>
  The values that \<^verbatim>\<open>response.json()\<close> can deliver, as far as the code tells them apart:
  \<^verbatim>\<open>null\<close> (the falsy one), the empty array that \<^verbatim>\<open>request\<close> returns for a \<^verbatim>\<open>DELETE\<close>, a cart
  object, a batch response object with its optional \<^verbatim>\<open>responses\<close> array (only the \<^verbatim>\<open>status\<close>
  of each sub-response is read), and any other truthy object (an order, for instance).
  TypeScript's \<^verbatim>\<open>as T\<close> is unchecked, so the cart state holds whatever the server sent.
\<close>

datatype json = JNull | JEmptyArray | JCart Cart | JBatch "nat list option" | JOther

datatype error =
    NetworkError    \<comment> \<open>\<^verbatim>\<open>fetch\<close> rejected\<close>
  | ApiError nat    \<comment> \<open>\<^verbatim>\<open>API Error ${response.status}: ...\<close>; the message text is not modelled\<close>
  | SyntaxError     \<comment> \<open>\<^verbatim>\<open>response.json()\<close> rejected\<close>
  | TypeError       \<comment> \<open>property access on \<^verbatim>\<open>null\<close> or \<^verbatim>\<open>undefined\<close>\<close>
  | BatchError nat  \<comment> \<open>\<^verbatim>\<open>Batch request completed with ${n} failures.\<close>\<close>

text \<open>The sub-requests of a batch and the request bodies before \<^verbatim>\<open>JSON.stringify\<close>.\<close>

record BatchRequest =
  path :: string
  sub_method :: string
  cache :: string
  body_id :: int
  body_quantity :: int
  header_cart_token :: "string option"

record OrderAddress =
  o_first_name :: string
  o_last_name :: string
  o_company :: string
  o_address_1 :: string
  o_address_2 :: string
  o_city :: string
  o_state :: string
  o_postcode :: string
  o_country :: string
  o_email :: "string option"
  o_phone :: string

datatype payload =
    EmptyObject                                \<comment> \<open>\<^verbatim>\<open>{}\<close>\<close>
  | AddItem string int                         \<comment> \<open>\<^verbatim>\<open>{ id: itemId.toString(), quantity }\<close>\<close>
  | SetQuantity int                            \<comment> \<open>\<^verbatim>\<open>{ quantity }\<close>\<close>
  | BatchPayload "BatchRequest list"           \<comment> \<open>\<^verbatim>\<open>{ requests }\<close>\<close>
  | OrderPayload string OrderAddress OrderAddress

datatype apiType = custom | woocommerce | wordpress | store | auth

record RequestConfig =
  url :: string
  httpMethod :: string   \<comment> \<open>the \<^verbatim>\<open>method\<close> of the fetch options\<close>
  headers :: "(string \<times> string) list"
  body :: "payload option"

record Response =
  status :: nat
  responseHeaders :: "(string \<times> string) list"
  jsonBody :: "json option"   \<comment> \<open>\<^verbatim>\<open>None\<close>: the body is not JSON, \<^verbatim>\<open>response.json()\<close> rejects\<close>

datatype fetch_result = NetworkFailure | Responded Response

section \<open>Application state\<close>

text \<open>
  The React state of \<^verbatim>\<open>BasketProvider\<close> with its two refs, the values it reads from the
  business and auth contexts, the \<^verbatim>\<open>AsyncStorage\<close> contents, and the network: \<open>sent\<close> is
  the log of the requests passed to \<^verbatim>\<open>fetch\<close> so far, \<open>responses\<close> the answers the remote
  service will give to the next calls, in order (past its end the network is down).
\<close>

datatype stored = StoredToken string | StoredBusiness Business

record app =
  sent :: "RequestConfig list"
  responses :: "fetch_result list"
  storage :: "string \<rightharpoonup> stored"
  authToken :: "string option"
  user :: "string option"
  activeBusiness :: "Business option"
  cartToken :: "string option"
  cartTokenRef :: "string option"
  originBusiness :: "Business option"
  conflictModalVisible :: bool
  pendingItem :: "(int \<times> int) option"
  cart :: json
  cartRef :: json
  isSyncing :: bool

text \<open>
  \<^verbatim>\<open>cartTokenRef.current = cartToken\<close> and \<^verbatim>\<open>cartRef.current = cart\<close> are assigned by effects
  that run after a render. The model lets React render at every \<^verbatim>\<open>await\<close> of the source
  and nowhere else: \<open>await\<close> is applied exactly where the source awaits.
\<close>

definition commit :: "app \<Rightarrow> app" where
  "commit s = s\<lparr>cartTokenRef := cartToken s, cartRef := cart s\<rparr>"

definition await :: "'a \<times> app \<Rightarrow> 'a \<times> app" where
  "await p = (fst p, commit (snd p))"

definition CART_TOKEN_STORAGE :: string where
  "CART_TOKEN_STORAGE = ''@Cart:token''"

definition ORIGIN_BUSINESS_STORAGE :: string where
  "ORIGIN_BUSINESS_STORAGE = ''@Cart:originBusiness''"

definition PLATFORM_BASE_URL :: string where
  "PLATFORM_BASE_URL = ''https://foodapp1.wpenginepowered.com/wp-json/''"

subsection \<open>JavaScript helpers\<close>

definition truthy_string :: "string option \<Rightarrow> bool" where
  "truthy_string t = (case t of None \<Rightarrow> False | Some v \<Rightarrow> v \<noteq> [])"

definition truthy :: "json \<Rightarrow> bool" where
  "truthy j = (j \<noteq> JNull)"

definition startsWith :: "string \<Rightarrow> char \<Rightarrow> bool" where
  "startsWith str c = (case str of [] \<Rightarrow> False | x # _ \<Rightarrow> x = c)"

definition endsWith :: "string \<Rightarrow> char \<Rightarrow> bool" where
  "endsWith str c = (str \<noteq> [] \<and> last str = c)"

text \<open>Template literals print \<^verbatim>\<open>null\<close> as the text \<^verbatim>\<open>null\<close>.\<close>

definition template :: "string option \<Rightarrow> string" where
  "template t = (case t of None \<Rightarrow> ''null'' | Some v \<Rightarrow> v)"

text \<open>\<^verbatim>\<open>Number.prototype.toString\<close> on an integer: decimal digits, a minus sign if negative.\<close>

definition digit :: "nat \<Rightarrow> char" where
  "digit n = ''0123456789'' ! n"

function digits :: "nat \<Rightarrow> string" where
  "digits n = (if n < 10 then [digit n] else digits (n div 10) @ [digit (n mod 10)])"
  by pat_completeness auto
termination
  by (relation "measure (\<lambda>n. n)") auto

definition toString :: "int \<Rightarrow> string" where
  "toString i = (if i < 0 then CHR ''-'' # digits (nat (- i)) else digits (nat i))"

text \<open>\<^verbatim>\<open>Headers.get\<close> matches header names without regard to ASCII case.\<close>

definition toLowerCase :: "char \<Rightarrow> char" where
  "toLowerCase c =
     (case map_of (zip ''ABCDEFGHIJKLMNOPQRSTUVWXYZ'' ''abcdefghijklmnopqrstuvwxyz'') c of
        None \<Rightarrow> c
      | Some l \<Rightarrow> l)"

fun headers_get :: "(string \<times> string) list \<Rightarrow> string \<Rightarrow> string option" where
  "headers_get [] n = None"
| "headers_get ((k, v) # hs) n =
     (if map toLowerCase k = map toLowerCase n then Some v else headers_get hs n)"

text \<open>Assignment to a property of the \<^verbatim>\<open>headers\<close> object.\<close>

fun setHeader :: "string \<Rightarrow> string \<Rightarrow> (string \<times> string) list \<Rightarrow> (string \<times> string) list" where
  "setHeader k v [] = [(k, v)]"
| "setHeader k v ((k', v') # hs) =
     (if k = k' then (k, v) # hs else (k', v') # setHeader k v hs)"

definition ok :: "Response \<Rightarrow> bool" where
  "ok r = (200 \<le> status r \<and> status r \<le> 299)"

section \<open>Cart token store (src/context/BusinessContext.tsx)\<close>

definition getCartToken :: "app \<Rightarrow> string option" where
  "getCartToken s = cartTokenRef s"

text \<open>\<^verbatim>\<open>AsyncStorage\<close> is taken to succeed; each of its calls is awaited.\<close>

definition setItem :: "string \<Rightarrow> stored \<Rightarrow> app \<Rightarrow> unit \<times> app" where
  "setItem k v s = ((), s\<lparr>storage := (storage s)(k \<mapsto> v)\<rparr>)"

definition removeItem :: "string \<Rightarrow> app \<Rightarrow> unit \<times> app" where
  "removeItem k s = ((), s\<lparr>storage := (storage s)(k := None)\<rparr>)"

definition saveCartToken :: "string option \<Rightarrow> app \<Rightarrow> unit \<times> app" where
  "saveCartToken token s =
     (let s1 = snd (case token of
                      None \<Rightarrow> await (removeItem CART_TOKEN_STORAGE s)
                    | Some t \<Rightarrow>
                        if t \<noteq> [] then await (setItem CART_TOKEN_STORAGE (StoredToken t) s)
                        else await (removeItem CART_TOKEN_STORAGE s))
      in ((), s1\<lparr>cartToken := token\<rparr>))"

section \<open>API service (src/services/apiService.ts)\<close>

subsection \<open>\<^verbatim>\<open>request\<close>\<close>

definition baseUrl :: "string \<Rightarrow> apiType \<Rightarrow> app \<Rightarrow> string" where
  "baseUrl endpoint apiT s =
     (if endpoint = ''/businesses'' \<or> apiT = auth then PLATFORM_BASE_URL
      else case activeBusiness s of
             None \<Rightarrow> PLATFORM_BASE_URL
           | Some b \<Rightarrow>
               if home_url b = [] then PLATFORM_BASE_URL
               else if endsWith (home_url b) CHR ''/'' then home_url b @ ''wp-json/''
               else home_url b @ ''/wp-json/'')"

definition slash :: "string \<Rightarrow> string" where
  "slash endpoint = (if startsWith endpoint CHR ''/'' then [] else ''/'')"

text \<open>
  \<open>overrideToken\<close> is \<^verbatim>\<open>None\<close> for \<^verbatim>\<open>undefined\<close>; \<open>Some None\<close> is an explicit \<^verbatim>\<open>null\<close>.
\<close>

definition customerAuthToken :: "string option option \<Rightarrow> app \<Rightarrow> string option" where
  "customerAuthToken overrideToken s =
     (case overrideToken of None \<Rightarrow> authToken s | Some t \<Rightarrow> t)"

definition bearer :: "string option \<Rightarrow> (string \<times> string) list \<Rightarrow> (string \<times> string) list" where
  "bearer t hs = setHeader ''Authorization'' (''Bearer '' @ template t) hs"

definition fullEndpoint :: "string \<Rightarrow> apiType \<Rightarrow> string" where
  "fullEndpoint endpoint apiT =
     (case apiT of
        woocommerce \<Rightarrow> ''wc/v3'' @ slash endpoint @ endpoint
      | store \<Rightarrow> ''wc/store/v1'' @ slash endpoint @ endpoint
      | custom \<Rightarrow> ''foodapp/v1'' @ slash endpoint @ endpoint
      | _ \<Rightarrow> slash endpoint @ endpoint)"

definition configHeaders ::
  "apiType \<Rightarrow> (string \<times> string) list \<Rightarrow> string option option \<Rightarrow> app \<Rightarrow> (string \<times> string) list"
where
  "configHeaders apiT hdrs overrideToken s =
     (let h0 = fold (\<lambda>(k, v). setHeader k v) hdrs [(''Content-Type'', ''application/json'')];
          tok = customerAuthToken overrideToken s
      in case apiT of
           woocommerce \<Rightarrow> if truthy_string tok then bearer tok h0 else h0
         | store \<Rightarrow>
             bearer tok (case getCartToken s of
                           None \<Rightarrow> h0
                         | Some t \<Rightarrow> if t \<noteq> [] then setHeader ''Cart-Token'' t h0 else h0)
         | custom \<Rightarrow> if truthy_string tok then bearer tok h0 else h0
         | _ \<Rightarrow> h0)"

definition requestConfig ::
  "string \<Rightarrow> apiType \<Rightarrow> string \<Rightarrow> payload option \<Rightarrow> (string \<times> string) list \<Rightarrow>
   string option option \<Rightarrow> app \<Rightarrow> RequestConfig"
where
  "requestConfig endpoint apiT meth bdy hdrs overrideToken s =
     \<lparr>url = baseUrl endpoint apiT s @ fullEndpoint endpoint apiT,
      httpMethod = meth,
      headers = configHeaders apiT hdrs overrideToken s,
      body = bdy\<rparr>"

definition fetch :: "RequestConfig \<Rightarrow> app \<Rightarrow> fetch_result \<times> app" where
  "fetch config s =
     (case responses s of
        [] \<Rightarrow> (NetworkFailure, s\<lparr>sent := sent s @ [config]\<rparr>)
      | r # rs \<Rightarrow> (r, s\<lparr>sent := sent s @ [config], responses := rs\<rparr>))"

text \<open>
  \<^verbatim>\<open>request\<close>: the token from the response header is saved before the status is looked
  at; a failing status throws; a \<^verbatim>\<open>DELETE\<close> returns \<^verbatim>\<open>[]\<close> without reading the body; every
  other method returns the parsed body. The \<^verbatim>\<open>catch\<close> logs and rethrows.
\<close>

definition request ::
  "string \<Rightarrow> apiType \<Rightarrow> string \<Rightarrow> payload option \<Rightarrow> (string \<times> string) list \<Rightarrow>
   string option option \<Rightarrow> app \<Rightarrow> (error + json) \<times> app"
where
  "request endpoint apiT meth bdy hdrs overrideToken s =
     (let currentCartToken = getCartToken s;
          config = requestConfig endpoint apiT meth bdy hdrs overrideToken s;
          fetched = await (fetch config s);
          s1 = snd fetched
      in case fst fetched of
           NetworkFailure \<Rightarrow> (Inl NetworkError, s1)
         | Responded response \<Rightarrow>
             (let newCartToken = headers_get (responseHeaders response) ''cart-token'';
                  s2 = (if truthy_string newCartToken \<and> newCartToken \<noteq> currentCartToken
                        then snd (await (saveCartToken newCartToken s1)) else s1)
              in if \<not> ok response then (Inl (ApiError (status response)), commit s2)
                 else if meth = ''DELETE'' then (Inr JEmptyArray, s2)
                 else (case jsonBody response of
                         None \<Rightarrow> (Inl SyntaxError, commit s2)
                       | Some j \<Rightarrow> (Inr j, commit s2))))"

subsection \<open>Cart operations\<close>

definition getWooCommerceCart :: "app \<Rightarrow> (error + json) \<times> app" where
  "getWooCommerceCart s = await (request ''/cart'' store ''GET'' None [] None s)"

definition sendWooCommerceCartUpdate ::
  "string \<Rightarrow> string \<Rightarrow> payload option \<Rightarrow> app \<Rightarrow> (error + json) \<times> app"
where
  "sendWooCommerceCartUpdate endpoint meth data s =
     (if meth = ''DELETE'' then await (request endpoint store meth data [] None s)
      else await (request endpoint store meth data [] None s))"

text \<open>
  \<^verbatim>\<open>clearCart\<close> sends the request only if a cart token is held; otherwise it falls off the
  end of the function and returns \<^verbatim>\<open>undefined\<close>, here \<open>Inr None\<close>.
\<close>

definition clearCart :: "app \<Rightarrow> (error + json option) \<times> app" where
  "clearCart s =
     (if truthy_string (getCartToken s)
      then (case await (request ''/cart/items'' store ''DELETE'' (Some EmptyObject) [] None s) of
              (Inl e, s1) \<Rightarrow> (Inl e, s1)
            | (Inr clearedCart, s1) \<Rightarrow> (Inr (Some clearedCart), s1))
      else (Inr None, s))"

definition sendWooCommerceCartBatch :: "payload \<Rightarrow> app \<Rightarrow> (error + json) \<times> app" where
  "sendWooCommerceCartBatch p s = await (request ''/batch'' store ''POST'' (Some p) [] None s)"

definition orderAddress :: "Address \<Rightarrow> string option \<Rightarrow> OrderAddress" where
  "orderAddress a email =
     \<lparr>o_first_name = first_name a, o_last_name = last_name a, o_company = [],
      o_address_1 = address_1 a, o_address_2 = address_2 a, o_city = city a,
      o_state = state a, o_postcode = postcode a,
      o_country = (if country a = ''UK'' then ''GB'' else country a),
      o_email = email, o_phone = []\<rparr>"

text \<open>
  \<^verbatim>\<open>createOrder\<close>: reading a field of a \<^verbatim>\<open>null\<close> shipping address throws inside the \<^verbatim>\<open>try\<close>;
  after a successful checkout request the cart token is cleared.
\<close>

definition createOrder :: "CheckoutPayload \<Rightarrow> app \<Rightarrow> (error + json) \<times> app" where
  "createOrder p s =
     (case shipping_address p of
        None \<Rightarrow> (Inl TypeError, s)
      | Some shipping \<Rightarrow>
          (let orderPayload = OrderPayload (payment_method p)
                 (orderAddress (billing_address p) (user s)) (orderAddress shipping (user s))
           in case await (request ''checkout'' store ''POST'' (Some orderPayload) [] None s) of
                (Inl e, s1) \<Rightarrow> (Inl e, s1)
              | (Inr newOrder, s1) \<Rightarrow> (Inr newOrder, snd (await (saveCartToken None s1)))))"

section \<open>Basket operations (src/context/BusinessContext.tsx)\<close>

definition itemCount :: "app \<Rightarrow> int" where
  "itemCount s = (case cart s of JCart c \<Rightarrow> items_count c | _ \<Rightarrow> 0)"

record StoreApiUpdatePayload =
  endpoint :: string
  requestPayload :: payload
  updateMethod :: string

text \<open>
  \<^verbatim>\<open>getCartUpdateEndpoint\<close>. With no cart the item is posted to \<^verbatim>\<open>/cart/items\<close>. Otherwise
  the line with this product id is looked up: quantity \<open>\<le> 0\<close> and a line deletes it, a
  line alone updates it, quantity \<open>> 0\<close> and no line adds the item, anything else is the
  empty endpoint (no action). Reading \<^verbatim>\<open>.items.find\<close> on an object without \<^verbatim>\<open>items\<close> throws.
\<close>

definition getCartUpdateEndpoint :: "int \<Rightarrow> int \<Rightarrow> json \<Rightarrow> error + StoreApiUpdatePayload" where
  "getCartUpdateEndpoint itemId newQuantity currentCart =
     (case currentCart of
        JNull \<Rightarrow>
          Inr \<lparr>endpoint = ''/cart/items'',
               requestPayload = AddItem (toString itemId) newQuantity,
               updateMethod = ''POST''\<rparr>
      | JCart c \<Rightarrow>
          (case find (\<lambda>i. item_id i = itemId) (items c) of
             Some existingItem \<Rightarrow>
               if newQuantity \<le> 0
               then Inr \<lparr>endpoint = ''/cart/items/'' @ key existingItem,
                         requestPayload = EmptyObject,
                         updateMethod = ''DELETE''\<rparr>
               else Inr \<lparr>endpoint = ''/cart/items/'' @ key existingItem,
                         requestPayload = SetQuantity newQuantity,
                         updateMethod = ''PUT''\<rparr>
           | None \<Rightarrow>
               if newQuantity > 0
               then Inr \<lparr>endpoint = ''/cart/add-item'',
                         requestPayload = AddItem (toString itemId) newQuantity,
                         updateMethod = ''POST''\<rparr>
               else Inr \<lparr>endpoint = [], requestPayload = EmptyObject, updateMethod = ''POST''\<rparr>)
      | _ \<Rightarrow> Inl TypeError)"

text \<open>
  The \<^verbatim>\<open>try\<close> block of \<^verbatim>\<open>performBasketUpdate\<close> with its \<^verbatim>\<open>catch\<close>, which logs the error and
  goes on: the state after it. The cart is fetched again only if the mutation response
  is truthy or the method is \<^verbatim>\<open>DELETE\<close>; \<^verbatim>\<open>updatedCart.items_count\<close> on \<^verbatim>\<open>null\<close> throws
  after \<^verbatim>\<open>setCart\<close>.
\<close>

definition performBasketUpdate_try :: "StoreApiUpdatePayload \<Rightarrow> app \<Rightarrow> app" where
  "performBasketUpdate_try u s =
     (case await (sendWooCommerceCartUpdate (endpoint u) (updateMethod u)
                    (Some (requestPayload u)) s) of
        (Inl e, s1) \<Rightarrow> s1
      | (Inr updateCartResponse, s1) \<Rightarrow>
          if truthy updateCartResponse \<or> updateMethod u = ''DELETE''
          then (case await (getWooCommerceCart s1) of
                  (Inl e, s2) \<Rightarrow> s2
                | (Inr updatedCart, s2) \<Rightarrow>
                    (let s3 = s2\<lparr>cart := updatedCart\<rparr>
                     in case updatedCart of
                          JCart c \<Rightarrow>
                            if items_count c = 0
                            then snd (await (removeItem ORIGIN_BUSINESS_STORAGE
                                               (s3\<lparr>originBusiness := None\<rparr>)))
                            else s3
                        | _ \<Rightarrow> s3))
          else s1)"

text \<open>
  \<^verbatim>\<open>getCartUpdateEndpoint\<close> is called before the \<^verbatim>\<open>try\<close>: if it throws, the error leaves
  \<^verbatim>\<open>performBasketUpdate\<close> and \<^verbatim>\<open>isSyncing\<close> stays set.
\<close>

definition performBasketUpdate :: "int \<Rightarrow> int \<Rightarrow> app \<Rightarrow> (error + unit) \<times> app" where
  "performBasketUpdate itemId newQuantity s =
     (let s1 = s\<lparr>isSyncing := True\<rparr>;
          currentCart = cartRef s1
      in case getCartUpdateEndpoint itemId newQuantity currentCart of
           Inl e \<Rightarrow> (Inl e, s1)
         | Inr u \<Rightarrow>
             if endpoint u = [] then (Inr (), s1\<lparr>isSyncing := False\<rparr>)
             else (Inr (), (performBasketUpdate_try u s1)\<lparr>isSyncing := False\<rparr>))"

text \<open>
  \<^verbatim>\<open>updateBasket\<close> up to its call of \<^verbatim>\<open>performBasketUpdate\<close>: the busy check, the conflict
  check and the recording of the origin of a first item. \<^verbatim>\<open>isSyncing\<close>, \<^verbatim>\<open>itemCount\<close>,
  \<^verbatim>\<open>originBusiness\<close> and \<^verbatim>\<open>activeBusiness\<close> are the values of the render that created the
  callback, here the state in which it is called.
\<close>

datatype admission = Rejected | Conflict | Admitted

definition differentBusiness :: "app \<Rightarrow> bool" where
  "differentBusiness s =
     (case originBusiness s of
        None \<Rightarrow> False
      | Some origin \<Rightarrow>
          (case activeBusiness s of
             None \<Rightarrow> True
           | Some active \<Rightarrow> business_id origin \<noteq> business_id active))"

definition updateBasket_enter :: "int \<Rightarrow> int \<Rightarrow> app \<Rightarrow> admission \<times> app" where
  "updateBasket_enter itemId newQuantity s =
     (if isSyncing s then (Rejected, s)
      else if newQuantity > 0 \<and> itemCount s > 0 \<and> differentBusiness s
      then (Conflict, s\<lparr>pendingItem := Some (itemId, newQuantity), conflictModalVisible := True\<rparr>)
      else if newQuantity > 0 \<and> itemCount s = 0
      then (case activeBusiness s of
              None \<Rightarrow> (Admitted, s)
            | Some b \<Rightarrow>
                (Admitted, snd (await (setItem ORIGIN_BUSINESS_STORAGE (StoredBusiness b)
                                         (s\<lparr>originBusiness := Some b\<rparr>)))))
      else (Admitted, s))"

definition updateBasket :: "int \<Rightarrow> int \<Rightarrow> app \<Rightarrow> (error + unit) \<times> app" where
  "updateBasket itemId newQuantity s =
     (case updateBasket_enter itemId newQuantity s of
        (Admitted, s1) \<Rightarrow> await (performBasketUpdate itemId newQuantity s1)
      | (_, s1) \<Rightarrow> (Inr (), s1))"

text \<open>The two buttons of the conflict dialog: \<^verbatim>\<open>onConfirm\<close> and \<^verbatim>\<open>onCancel\<close>.\<close>

definition handleClearAndAdd :: "app \<Rightarrow> (error + unit) \<times> app" where
  "handleClearAndAdd s =
     (case pendingItem s of
        None \<Rightarrow> (Inr (), s)
      | Some itemToProcess \<Rightarrow>
          (let s1 = s\<lparr>pendingItem := None, conflictModalVisible := False, isSyncing := True\<rparr>
           in case await (clearCart s1) of
                (Inl e, s2) \<Rightarrow> (Inr (), s2\<lparr>isSyncing := False\<rparr>)
              | (Inr cleared, s2) \<Rightarrow>
                  (let s3 = s2\<lparr>cart := JNull\<rparr>;
                       s4 = (case activeBusiness s3 of
                               None \<Rightarrow> s3
                             | Some b \<Rightarrow>
                                 snd (await (setItem ORIGIN_BUSINESS_STORAGE (StoredBusiness b)
                                               (s3\<lparr>originBusiness := Some b\<rparr>))));
                       added = await (performBasketUpdate (fst itemToProcess)
                                        (snd itemToProcess) s4)
                   in (Inr (), (snd added)\<lparr>isSyncing := False\<rparr>))))"

definition handleKeepExisting :: "app \<Rightarrow> app" where
  "handleKeepExisting s = s\<lparr>conflictModalVisible := False, pendingItem := None\<rparr>"

text \<open>
  \<^verbatim>\<open>reorderItems\<close>. \<open>reorderItems_try\<close> is the \<^verbatim>\<open>try\<close> block: \<open>Inl\<close> is a throw, with the
  state at the throw. The \<^verbatim>\<open>catch\<close> fetches the cart; an error of that fetch leaves the
  function. \<^verbatim>\<open>finally\<close> resets \<^verbatim>\<open>isSyncing\<close> on every path.
\<close>

definition batchRequest :: "string option \<Rightarrow> LineItem \<Rightarrow> BatchRequest" where
  "batchRequest currentCartToken item =
     \<lparr>path = ''/wc/store/v1/cart/add-item'', sub_method = ''POST'', cache = ''no-store'',
      body_id = product_id item, body_quantity = quantity item,
      header_cart_token = currentCartToken\<rparr>"

definition failedRequests :: "json \<Rightarrow> error + nat list" where
  "failedRequests batchResponse =
     (case batchResponse of
        JNull \<Rightarrow> Inl TypeError
      | JBatch (Some rs) \<Rightarrow> Inr (filter (\<lambda>st. st \<ge> 400) rs)
      | _ \<Rightarrow> Inr [])"

definition reorderItems_try :: "LineItem list \<Rightarrow> app \<Rightarrow> (error + unit) \<times> app" where
  "reorderItems_try itms s =
     (case await (clearCart s) of
        (Inl e, s1) \<Rightarrow> (Inl e, s1)
      | (Inr cleared, s1) \<Rightarrow>
          (let currentCartToken = getCartToken s1
           in if length itms = 0
              then (case await (getWooCommerceCart s1) of
                      (Inl e, s2) \<Rightarrow> (Inl e, s2)
                    | (Inr emptyCart, s2) \<Rightarrow> (Inr (), s2\<lparr>cart := emptyCart\<rparr>))
              else (let batchRequests = map (batchRequest currentCartToken) itms
                    in case await (sendWooCommerceCartBatch (BatchPayload batchRequests) s1) of
                         (Inl e, s2) \<Rightarrow> (Inl e, s2)
                       | (Inr batchResponse, s2) \<Rightarrow>
                           (case failedRequests batchResponse of
                              Inl e \<Rightarrow> (Inl e, s2)
                            | Inr failed \<Rightarrow>
                                if length failed > 0 then (Inl (BatchError (length failed)), s2)
                                else (case await (getWooCommerceCart s2) of
                                        (Inl e, s3) \<Rightarrow> (Inl e, s3)
                                      | (Inr updatedCart, s3) \<Rightarrow>
                                          (Inr (), s3\<lparr>cart := updatedCart\<rparr>))))))"

definition reorderItems :: "LineItem list \<Rightarrow> app \<Rightarrow> (error + unit) \<times> app" where
  "reorderItems itms s =
     (if isSyncing s then (Inr (), s)
      else (let s1 = s\<lparr>isSyncing := True\<rparr>
            in case reorderItems_try itms s1 of
                 (Inr u, s2) \<Rightarrow> (Inr (), s2\<lparr>isSyncing := False\<rparr>)
               | (Inl thrown, s2) \<Rightarrow>
                   (case await (getWooCommerceCart s2) of
                      (Inl e, s3) \<Rightarrow> (Inl e, s3\<lparr>isSyncing := False\<rparr>)
                    | (Inr resyncCart, s3) \<Rightarrow>
                        (Inr (), s3\<lparr>cart := resyncCart, isSyncing := False\<rparr>))))"

section \<open>Observations\<close>

text \<open>
  What goes over the wire for a request: method, URL and body. \<open>issued s s'\<close> are the
  requests sent between the states \<open>s\<close> and \<open>s'\<close>; \<open>storeUrl s p\<close> is the URL of the Store
  API path \<open>p\<close> for the business that is active in \<open>s\<close>.
\<close>

definition wire :: "RequestConfig \<Rightarrow> string \<times> string \<times> payload option" where
  "wire r = (httpMethod r, url r, body r)"

definition issued :: "app \<Rightarrow> app \<Rightarrow> RequestConfig list" where
  "issued s s' = drop (length (sent s)) (sent s')"

definition storeUrl :: "app \<Rightarrow> string \<Rightarrow> string" where
  "storeUrl s p = baseUrl p store s @ fullEndpoint p store"

text \<open>The mutation \<open>m\<close> alone, or \<open>m\<close> followed by \<^verbatim>\<open>GET /cart\<close>.\<close>

definition sends_mutation :: "app \<Rightarrow> app \<Rightarrow> string \<times> string \<times> payload option \<Rightarrow> bool" where
  "sends_mutation s s' m =
     (map wire (issued s s') = [m] \<or>
      map wire (issued s s') = [m, (''GET'', storeUrl s ''/cart'', None)])"

abbreviation upd :: "StoreApiUpdatePayload \<Rightarrow> app \<Rightarrow> (error + json) \<times> app" where
  "upd u s \<equiv>
     sendWooCommerceCartUpdate (endpoint u) (updateMethod u) (Some (requestPayload u)) s"

text \<open>Whether \<^verbatim>\<open>performBasketUpdate\<close> goes on to fetch the cart after its mutation.\<close>

definition refetches :: "StoreApiUpdatePayload \<Rightarrow> app \<Rightarrow> bool" where
  "refetches u s =
     (case fst (upd u s) of Inl e \<Rightarrow> False | Inr j \<Rightarrow> truthy j \<or> updateMethod u = ''DELETE'')"

text \<open>
  The token that is current after the response \<open>r\<close> has been received in state \<open>s\<close>.
\<close>

definition tokenAfter :: "Response \<Rightarrow> app \<Rightarrow> string option" where
  "tokenAfter r s =
     (let newCartToken = headers_get (responseHeaders r) ''cart-token''
      in if truthy_string newCartToken \<and> newCartToken \<noteq> cartTokenRef s then newCartToken
         else cartToken s)"

text \<open>The next exchange fails in transport or comes back with a non-success status.\<close>

definition failed_exchange :: "fetch_result list \<Rightarrow> bool" where
  "failed_exchange rs =
     (case rs of [] \<Rightarrow> True | NetworkFailure # _ \<Rightarrow> True | Responded r # _ \<Rightarrow> \<not> ok r)"

text \<open>The state in which \<^verbatim>\<open>reorderItems\<close> sends its batch, and the one after the batch.\<close>

definition cleared :: "app \<Rightarrow> app" where
  "cleared s = snd (await (clearCart (s\<lparr>isSyncing := True\<rparr>)))"

definition batchOf :: "LineItem list \<Rightarrow> app \<Rightarrow> payload" where
  "batchOf itms s = BatchPayload (map (batchRequest (getCartToken (cleared s))) itms)"

definition batched :: "LineItem list \<Rightarrow> app \<Rightarrow> app" where
  "batched itms s = snd (await (sendWooCommerceCartBatch (batchOf itms s) (cleared s)))"

text \<open>A sequence of \<^verbatim>\<open>updateBasket\<close> calls, each one completed before the next.\<close>

fun updateAll :: "(int \<times> int) list \<Rightarrow> app \<Rightarrow> app" where
  "updateAll [] s = s"
| "updateAll ((itemId, newQuantity) # ops) s =
     updateAll ops (snd (updateBasket itemId newQuantity s))"

text \<open>
  Two \<^verbatim>\<open>updateBasket\<close> calls in immediate succession: the second is made while the first
  has not yet reached \<^verbatim>\<open>setIsSyncing(true)\<close> (for a first item it is suspended at
  \<^verbatim>\<open>await AsyncStorage.setItem\<close>), so both run their entry checks on a state whose flag is
  still clear; then the first call resumes and completes, then the second.
\<close>

definition updateBasket_overlapped :: "int \<Rightarrow> int \<Rightarrow> app \<Rightarrow> app" where
  "updateBasket_overlapped itemId newQuantity s =
     (let first = updateBasket_enter itemId newQuantity s;
          second = updateBasket_enter itemId newQuantity (snd first);
          s1 = (if fst first = Admitted
                then snd (await (performBasketUpdate itemId newQuantity (snd second)))
                else snd second)
      in if fst second = Admitted
         then snd (await (performBasketUpdate itemId newQuantity s1))
         else s1)"

section \<open>Example data\<close>

definition shopA :: Business where
  "shopA = \<lparr>business_id = 1, name = ''Shop A'', home_url = ''https://a.example''\<rparr>"

definition shopB :: Business where
  "shopB = \<lparr>business_id = 2, name = ''Shop B'', home_url = ''https://b.example/''\<rparr>"

definition emptyCart :: Cart where
  "emptyCart = \<lparr>items = [], items_count = 0\<rparr>"

definition cartWith :: "int \<Rightarrow> string \<Rightarrow> int \<Rightarrow> Cart" where
  "cartWith pid k q =
     \<lparr>items = [\<lparr>item_id = pid, key = k, product_id = pid, quantity = q\<rparr>], items_count = q\<rparr>"

definition respond :: "nat \<Rightarrow> (string \<times> string) list \<Rightarrow> json \<Rightarrow> fetch_result" where
  "respond st hs j = Responded \<lparr>status = st, responseHeaders = hs, jsonBody = Some j\<rparr>"

text \<open>
  A settled state: shop A is active, the session token \<^verbatim>\<open>t0\<close> is held and persisted, the
  cart is the given one, nothing is in flight.
\<close>

definition idle :: "json \<Rightarrow> Business option \<Rightarrow> fetch_result list \<Rightarrow> app" where
  "idle c origin rs =
     \<lparr>sent = [], responses = rs,
      storage = [CART_TOKEN_STORAGE \<mapsto> StoredToken ''t0''],
      authToken = None, user = None, activeBusiness = Some shopA,
      cartToken = Some ''t0'', cartTokenRef = Some ''t0'',
      originBusiness = origin, conflictModalVisible = False, pendingItem = None,
      cart = c, cartRef = c, isSyncing = False\<rparr>"

text \<open>The same state with no cart token cached or persisted.\<close>

definition withoutToken :: "app \<Rightarrow> app" where
  "withoutToken s = s\<lparr>cartToken := None, cartTokenRef := None, storage := Map.empty\<rparr>"

definition homeAddress :: Address where
  "homeAddress =
     \<lparr>first_name = ''Ada'', last_name = ''Byron'', address_1 = ''1 High Street'', address_2 = [],
      city = ''Leeds'', state = [], postcode = ''LS1 1AA'', country = ''UK''\<rparr>"

definition cashOrder :: CheckoutPayload where
  "cashOrder =
     \<lparr>billing_address = homeAddress, shipping_address = Some homeAddress,
      payment_method = ''cod''\<rparr>"

definition previousOrder :: "LineItem list" where
  "previousOrder =
     [\<lparr>item_id = 501, key = [], product_id = 7, quantity = 2\<rparr>,
      \<lparr>item_id = 502, key = [], product_id = 9, quantity = 1\<rparr>]"

definition reorderedCart :: Cart where
  "reorderedCart =
     \<lparr>items = [\<lparr>item_id = 7, key = ''k7'', product_id = 7, quantity = 2\<rparr>,
               \<lparr>item_id = 9, key = ''k9'', product_id = 9, quantity = 1\<rparr>],
      items_count = 3\<rparr>"

text \<open>The states and scripted answers of the scenarios below.\<close>

definition addScenario :: app where
  "addScenario =
     idle (JCart emptyCart) None
       [respond 201 [] JOther, respond 200 [] (JCart (cartWith 42 ''abc'' 1))]"

definition addThenRemove :: app where
  "addThenRemove =
     idle (JCart emptyCart) None
       [respond 201 [] JOther, respond 200 [] (JCart (cartWith 42 ''abc'' 1)),
        respond 200 [] JOther, respond 200 [] (JCart emptyCart)]"

definition nullBodyScenario :: app where
  "nullBodyScenario =
     idle (JCart emptyCart) None
       [respond 200 [] JNull, respond 200 [] (JCart (cartWith 42 ''abc'' 1))]"

definition doubleTap :: app where
  "doubleTap =
     idle (JCart emptyCart) None
       [respond 201 [] JOther, respond 200 [] (JCart (cartWith 42 ''abc'' 1)),
        respond 200 [] JOther, respond 200 [] (JCart (cartWith 42 ''abc'' 1))]"

definition busyConflict :: app where
  "busyConflict =
     (idle (JCart (cartWith 7 ''k7'' 1)) (Some shopB) [respond 200 [] JOther])
       \<lparr>pendingItem := Some (42, 1), conflictModalVisible := True, isSyncing := True\<rparr>"

definition conflictScenario :: app where
  "conflictScenario =
     idle (JCart (cartWith 7 ''k7'' 1)) (Some shopB)
       [respond 200 [] JOther, respond 201 [] JOther,
        respond 200 [] (JCart (cartWith 42 ''abc'' 1))]"

definition reorderScenario :: app where
  "reorderScenario =
     idle (JCart emptyCart) None
       [respond 200 [] JOther, respond 207 [] (JBatch (Some [201, 201])),
        respond 200 [] (JCart reorderedCart)]"

definition partialFailure :: app where
  "partialFailure =
     idle (JCart emptyCart) None
       [respond 200 [] JOther, respond 207 [] (JBatch (Some [201, 404])),
        respond 200 [] (JCart (cartWith 7 ''k7'' 2))]"

definition noTokenReorder :: app where
  "noTokenReorder =
     withoutToken (idle (JCart emptyCart) None
       [respond 207 [] (JBatch (Some [201, 201])), respond 200 [] (JCart reorderedCart)])"

definition emptyReorder :: app where
  "emptyReorder =
     idle (JCart (cartWith 7 ''k7'' 1)) (Some shopA)
       [respond 200 [] JOther, respond 200 [] (JCart emptyCart)]"

definition offline :: app where
  "offline = idle (JCart emptyCart) None []"

definition rejected :: app where
  "rejected = idle (JCart (cartWith 42 ''abc'' 1)) (Some shopA) [respond 500 [] JOther]"

definition tokenHeld :: app where
  "tokenHeld = idle (JCart (cartWith 7 ''k7'' 1)) (Some shopA) [respond 200 [] (JCart emptyCart)]"

definition tokenRotated :: app where
  "tokenRotated =
     idle (JCart (cartWith 7 ''k7'' 1)) (Some shopA)
       [respond 200 [(''Content-Type'', ''application/json''), (''Cart-Token'', ''t1'')]
          (JCart (cartWith 7 ''k7'' 1))]"

section \<open>Properties of \<^verbatim>\<open>request\<close>\<close>

lemmas request_defs =
  request_def Let_def await_def commit_def fetch_def saveCartToken_def setItem_def removeItem_def

lemma await_simps:
  "fst (await p) = fst p"
  "sent (snd (await p)) = sent (snd p)"
  "responses (snd (await p)) = responses (snd p)"
  "storage (snd (await p)) = storage (snd p)"
  "cart (snd (await p)) = cart (snd p)"
  "cartToken (snd (await p)) = cartToken (snd p)"
  "cartRef (snd (await p)) = cart (snd p)"
  "cartTokenRef (snd (await p)) = cartToken (snd p)"
  "originBusiness (snd (await p)) = originBusiness (snd p)"
  "activeBusiness (snd (await p)) = activeBusiness (snd p)"
  "authToken (snd (await p)) = authToken (snd p)"
  "user (snd (await p)) = user (snd p)"
  "isSyncing (snd (await p)) = isSyncing (snd p)"
  "pendingItem (snd (await p)) = pendingItem (snd p)"
  "conflictModalVisible (snd (await p)) = conflictModalVisible (snd p)"
  by (simp_all add: await_def commit_def)

lemma await_sent: "sent (snd (await p)) = sent (snd p)"
  by (simp add: await_simps)

lemma request_sent:
  "sent (snd (request e a m b h ov s)) = sent s @ [requestConfig e a m b h ov s]"
  by (simp add: request_defs split: list.splits fetch_result.splits option.splits)

lemma request_responses:
  "responses (snd (request e a m b h ov s)) = tl (responses s)"
  by (simp add: request_defs split: list.splits fetch_result.splits option.splits)

lemma request_keeps:
  "cart (snd (request e a m b h ov s)) = cart s"
  "originBusiness (snd (request e a m b h ov s)) = originBusiness s"
  "activeBusiness (snd (request e a m b h ov s)) = activeBusiness s"
  "authToken (snd (request e a m b h ov s)) = authToken s"
  "user (snd (request e a m b h ov s)) = user s"
  "isSyncing (snd (request e a m b h ov s)) = isSyncing s"
  "pendingItem (snd (request e a m b h ov s)) = pendingItem s"
  "conflictModalVisible (snd (request e a m b h ov s)) = conflictModalVisible s"
  by (simp_all add: request_defs split: list.splits fetch_result.splits option.splits)

lemma request_result:
  "fst (request e a m b h ov s) =
     (case responses s of
        [] \<Rightarrow> Inl NetworkError
      | NetworkFailure # _ \<Rightarrow> Inl NetworkError
      | Responded r # _ \<Rightarrow>
          if \<not> ok r then Inl (ApiError (status r))
          else if m = ''DELETE'' then Inr JEmptyArray
          else (case jsonBody r of None \<Rightarrow> Inl SyntaxError | Some j \<Rightarrow> Inr j))"
  by (simp add: request_defs split: list.splits fetch_result.splits option.splits)

lemma request_refs:
  "m \<noteq> ''DELETE'' \<Longrightarrow> cartRef (snd (request e a m b h ov s)) = cart s"
  by (simp add: request_defs split: list.splits fetch_result.splits option.splits)

lemma request_delete_ok:
  "responses s = Responded r # rest \<Longrightarrow> ok r \<Longrightarrow>
   fst (request e a ''DELETE'' b h ov s) = Inr JEmptyArray"
  by (simp add: request_defs)

lemma request_delete_result:
  "fst (request e a ''DELETE'' b h ov s) = Inr j \<Longrightarrow> j = JEmptyArray"
  by (simp add: request_defs split: list.splits fetch_result.splits if_splits)

lemma request_cartToken:
  "cartToken (snd (request e a m b h ov s)) =
     (case responses s of Responded r # _ \<Rightarrow> tokenAfter r s | _ \<Rightarrow> cartToken s)"
  by (auto simp add: request_defs tokenAfter_def getCartToken_def truthy_string_def
      split: list.splits fetch_result.splits option.splits)

lemma request_cartTokenRef:
  "cartTokenRef (snd (request e a m b h ov s)) = cartToken (snd (request e a m b h ov s))"
  by (auto simp add: request_defs getCartToken_def truthy_string_def
      split: list.splits fetch_result.splits option.splits)

lemma request_storage:
  "storage (snd (request e a m b h ov s)) =
     (case responses s of
        Responded r # _ \<Rightarrow>
          (case headers_get (responseHeaders r) ''cart-token'' of
             None \<Rightarrow> storage s
           | Some t \<Rightarrow>
               if t \<noteq> [] \<and> Some t \<noteq> cartTokenRef s
               then (storage s)(CART_TOKEN_STORAGE \<mapsto> StoredToken t) else storage s)
      | _ \<Rightarrow> storage s)"
  by (auto simp add: request_defs getCartToken_def truthy_string_def
      split: list.splits fetch_result.splits option.splits)

lemma map_of_setHeader:
  "map_of (setHeader k v hs) k' = (if k' = k then Some v else map_of hs k')"
  by (induction hs) auto

lemma cart_token_header:
  "cartTokenRef s = Some t \<Longrightarrow> t \<noteq> [] \<Longrightarrow>
   map_of (headers (requestConfig e store m b h ov s)) ''Cart-Token'' = Some t"
  by (simp add: requestConfig_def configHeaders_def Let_def bearer_def map_of_setHeader
      getCartToken_def)

lemma wire_requestConfig:
  "wire (requestConfig e store m d h ov s) = (m, storeUrl s e, d)"
  by (simp add: wire_def requestConfig_def storeUrl_def)

lemma storeUrl_cong:
  "activeBusiness s' = activeBusiness s \<Longrightarrow> storeUrl s' p = storeUrl s p"
  by (simp add: storeUrl_def baseUrl_def)

lemma storeUrl_isSyncing [simp]: "storeUrl (s\<lparr>isSyncing := b\<rparr>) p = storeUrl s p"
  by (simp add: storeUrl_def baseUrl_def)

lemma shopA_urls:
  assumes "activeBusiness s = Some shopA"
  shows "storeUrl s ''/cart/items'' = ''https://a.example/wp-json/wc/store/v1/cart/items''"
    and "storeUrl s ''/batch'' = ''https://a.example/wp-json/wc/store/v1/batch''"
    and "storeUrl s ''/cart'' = ''https://a.example/wp-json/wc/store/v1/cart''"
    and "storeUrl s ''/cart/add-item'' = ''https://a.example/wp-json/wc/store/v1/cart/add-item''"
  using assms
  by (simp_all add: storeUrl_def baseUrl_def shopA_def fullEndpoint_def slash_def startsWith_def
      endsWith_def)

lemma issued_append: "sent s' = sent s @ xs \<Longrightarrow> issued s s' = xs"
  by (simp add: issued_def)

lemma issued_isSyncing [simp]: "issued (s\<lparr>isSyncing := b\<rparr>) s' = issued s s'" "issued s (s'\<lparr>isSyncing := b\<rparr>) = issued s s'"
  by (simp_all add: issued_def)

lemma issued_cong: "sent s1 = sent s \<Longrightarrow> issued s1 s' = issued s s'"
  by (simp add: issued_def)

lemma issued_trans:
  "sent s1 = sent s @ xs \<Longrightarrow> sent s2 = sent s1 @ ys \<Longrightarrow> issued s s2 = xs @ ys"
  by (simp add: issued_def)

section \<open>Properties of the cart operations\<close>

lemma get_sent:
  "sent (snd (getWooCommerceCart s)) = sent s @ [requestConfig ''/cart'' store ''GET'' None [] None s]"
  by (simp add: getWooCommerceCart_def await_simps request_sent)

lemma get_keeps:
  "cart (snd (getWooCommerceCart s)) = cart s"
  "originBusiness (snd (getWooCommerceCart s)) = originBusiness s"
  "activeBusiness (snd (getWooCommerceCart s)) = activeBusiness s"
  "isSyncing (snd (getWooCommerceCart s)) = isSyncing s"
  "pendingItem (snd (getWooCommerceCart s)) = pendingItem s"
  "conflictModalVisible (snd (getWooCommerceCart s)) = conflictModalVisible s"
  "responses (snd (getWooCommerceCart s)) = tl (responses s)"
  by (simp_all add: getWooCommerceCart_def await_simps request_keeps request_responses)

lemma get_result:
  "fst (getWooCommerceCart s) = fst (request ''/cart'' store ''GET'' None [] None s)"
  by (simp add: getWooCommerceCart_def await_simps)

lemma update_sent:
  "sent (snd (sendWooCommerceCartUpdate e m d s)) = sent s @ [requestConfig e store m d [] None s]"
  by (simp add: sendWooCommerceCartUpdate_def await_simps request_sent)

lemma update_keeps:
  "cart (snd (sendWooCommerceCartUpdate e m d s)) = cart s"
  "originBusiness (snd (sendWooCommerceCartUpdate e m d s)) = originBusiness s"
  "activeBusiness (snd (sendWooCommerceCartUpdate e m d s)) = activeBusiness s"
  "isSyncing (snd (sendWooCommerceCartUpdate e m d s)) = isSyncing s"
  "pendingItem (snd (sendWooCommerceCartUpdate e m d s)) = pendingItem s"
  "conflictModalVisible (snd (sendWooCommerceCartUpdate e m d s)) = conflictModalVisible s"
  "responses (snd (sendWooCommerceCartUpdate e m d s)) = tl (responses s)"
  by (simp_all add: sendWooCommerceCartUpdate_def await_simps request_keeps request_responses)

lemma update_result:
  "fst (sendWooCommerceCartUpdate e m d s) = fst (request e store m d [] None s)"
  by (simp add: sendWooCommerceCartUpdate_def await_simps)

lemma batch_sent:
  "sent (snd (sendWooCommerceCartBatch p s)) =
     sent s @ [requestConfig ''/batch'' store ''POST'' (Some p) [] None s]"
  by (simp add: sendWooCommerceCartBatch_def await_simps request_sent)

lemma batch_result:
  "fst (sendWooCommerceCartBatch p s) = fst (request ''/batch'' store ''POST'' (Some p) [] None s)"
  by (simp add: sendWooCommerceCartBatch_def await_simps)

lemma batch_keeps:
  "cart (snd (sendWooCommerceCartBatch p s)) = cart s"
  "originBusiness (snd (sendWooCommerceCartBatch p s)) = originBusiness s"
  "activeBusiness (snd (sendWooCommerceCartBatch p s)) = activeBusiness s"
  "isSyncing (snd (sendWooCommerceCartBatch p s)) = isSyncing s"
  "pendingItem (snd (sendWooCommerceCartBatch p s)) = pendingItem s"
  "conflictModalVisible (snd (sendWooCommerceCartBatch p s)) = conflictModalVisible s"
  "responses (snd (sendWooCommerceCartBatch p s)) = tl (responses s)"
  by (simp_all add: sendWooCommerceCartBatch_def await_simps request_keeps request_responses)

lemma clear_without_token:
  "\<not> truthy_string (cartTokenRef s) \<Longrightarrow> clearCart s = (Inr None, s)"
  by (simp add: clearCart_def getCartToken_def)

lemma clear_with_token:
  assumes "truthy_string (cartTokenRef s)"
  shows "sent (snd (clearCart s)) =
           sent s @ [requestConfig ''/cart/items'' store ''DELETE'' (Some EmptyObject) [] None s]"
    and "responses (snd (clearCart s)) = tl (responses s)"
    and "fst (clearCart s) =
           (case fst (request ''/cart/items'' store ''DELETE'' (Some EmptyObject) [] None s) of
              Inl e \<Rightarrow> Inl e | Inr j \<Rightarrow> Inr (Some j))"
proof -
  obtain r1 s1 where p: "request ''/cart/items'' store ''DELETE'' (Some EmptyObject) [] None s = (r1, s1)"
    by (cases "request ''/cart/items'' store ''DELETE'' (Some EmptyObject) [] None s")
  have k: "sent s1 = sent s @ [requestConfig ''/cart/items'' store ''DELETE'' (Some EmptyObject) [] None s]"
    "responses s1 = tl (responses s)"
    using request_sent [of "''/cart/items''" store "''DELETE''" "Some EmptyObject" "[]" None s]
      request_responses [of "''/cart/items''" store "''DELETE''" "Some EmptyObject" "[]" None s] p
    by simp_all
  show "sent (snd (clearCart s)) =
           sent s @ [requestConfig ''/cart/items'' store ''DELETE'' (Some EmptyObject) [] None s]"
    and "responses (snd (clearCart s)) = tl (responses s)"
    and "fst (clearCart s) =
           (case fst (request ''/cart/items'' store ''DELETE'' (Some EmptyObject) [] None s) of
              Inl e \<Rightarrow> Inl e | Inr j \<Rightarrow> Inr (Some j))"
    using assms p k
    by (simp_all add: clearCart_def getCartToken_def await_def commit_def split: sum.splits)
qed

lemma clear_keeps:
  shows "cart (snd (clearCart s)) = cart s"
    and "originBusiness (snd (clearCart s)) = originBusiness s"
    and "activeBusiness (snd (clearCart s)) = activeBusiness s"
    and "isSyncing (snd (clearCart s)) = isSyncing s"
    and "pendingItem (snd (clearCart s)) = pendingItem s"
    and "conflictModalVisible (snd (clearCart s)) = conflictModalVisible s"
proof -
  obtain r1 s1 where p: "request ''/cart/items'' store ''DELETE'' (Some EmptyObject) [] None s = (r1, s1)"
    by (cases "request ''/cart/items'' store ''DELETE'' (Some EmptyObject) [] None s")
  note k = request_keeps [of "''/cart/items''" store "''DELETE''" "Some EmptyObject" "[]" None s]
  show "cart (snd (clearCart s)) = cart s"
    and "originBusiness (snd (clearCart s)) = originBusiness s"
    and "activeBusiness (snd (clearCart s)) = activeBusiness s"
    and "isSyncing (snd (clearCart s)) = isSyncing s"
    and "pendingItem (snd (clearCart s)) = pendingItem s"
    and "conflictModalVisible (snd (clearCart s)) = conflictModalVisible s"
    using p k by (simp_all add: clearCart_def await_def commit_def split: sum.splits)
qed

lemma clear_sent:
  "sent (snd (clearCart s)) =
     (if truthy_string (cartTokenRef s)
      then sent s @ [requestConfig ''/cart/items'' store ''DELETE'' (Some EmptyObject) [] None s]
      else sent s)"
  by (simp add: clear_with_token clear_without_token)

lemma clear_responses:
  "responses (snd (clearCart s)) =
     (if truthy_string (cartTokenRef s) then tl (responses s) else responses s)"
  by (simp add: clear_with_token clear_without_token)

lemma clear_result:
  "fst (clearCart s) =
     (if truthy_string (cartTokenRef s)
      then (case fst (request ''/cart/items'' store ''DELETE'' (Some EmptyObject) [] None s) of
              Inl e \<Rightarrow> Inl e | Inr j \<Rightarrow> Inr (Some j))
      else Inr None)"
  by (simp add: clear_with_token clear_without_token)

lemma clear_token_kept:
  assumes "responses s = Responded r # rest"
    and "headers_get (responseHeaders r) ''cart-token'' = None"
  shows "cartToken (snd (clearCart s)) = cartToken s"
    and "storage (snd (clearCart s)) = storage s"
  using assms
  by (simp_all add: clearCart_def case_prod_beta await_simps request_cartToken request_storage
      tokenAfter_def truthy_string_def split: sum.splits)

lemma saveCartToken_None:
  "cartToken (snd (saveCartToken None s)) = None"
  "storage (snd (saveCartToken None s)) CART_TOKEN_STORAGE = None"
  by (simp_all add: saveCartToken_def await_def commit_def removeItem_def)

lemma createOrder_clears_token:
  assumes "fst (createOrder p s) = Inr order"
  shows "cartToken (snd (createOrder p s)) = None"
    and "storage (snd (createOrder p s)) CART_TOKEN_STORAGE = None"
  using assms
  by (simp_all add: createOrder_def case_prod_beta Let_def await_simps saveCartToken_None
      split: option.splits sum.splits)

lemma createOrder_result:
  "shipping_address p = Some a \<Longrightarrow>
   fst (createOrder p s) =
     fst (request ''checkout'' store ''POST''
           (Some (OrderPayload (payment_method p) (orderAddress (billing_address p) (user s))
                    (orderAddress a (user s)))) [] None s)"
  by (simp add: createOrder_def case_prod_beta Let_def await_simps split: sum.splits)

lemma failed_exchange_throws:
  "failed_exchange (responses s) \<Longrightarrow>
   \<exists>e. fst (sendWooCommerceCartUpdate ep m d s) = Inl e"
  by (auto simp add: failed_exchange_def update_result request_result
      split: list.splits fetch_result.splits)

section \<open>Properties of \<^verbatim>\<open>performBasketUpdate\<close>\<close>

lemma try_sent:
  "sent (performBasketUpdate_try u s) =
     sent s @ requestConfig (endpoint u) store (updateMethod u) (Some (requestPayload u)) [] None s #
       (if refetches u s
        then [requestConfig ''/cart'' store ''GET'' None [] None
               (snd (await (sendWooCommerceCartUpdate (endpoint u) (updateMethod u) (Some (requestPayload u)) s)))]
        else [])"
proof (cases "sendWooCommerceCartUpdate (endpoint u) (updateMethod u) (Some (requestPayload u)) s")
  case (Pair r1 s1)
  have s1: "sent s1 = sent s @ [requestConfig (endpoint u) store (updateMethod u) (Some (requestPayload u)) [] None s]"
    using update_sent [of "endpoint u" "updateMethod u" "Some (requestPayload u)" s] Pair by simp
  show ?thesis
  proof (cases "getWooCommerceCart (commit s1)")
    case g: (Pair r2 s2)
    have s2: "sent s2 = sent s1 @ [requestConfig ''/cart'' store ''GET'' None [] None (commit s1)]"
      using get_sent [of "commit s1"] g by (simp add: commit_def)
    show ?thesis
      using Pair g s1 s2
      by (simp add: performBasketUpdate_try_def refetches_def await_def commit_def removeItem_def Let_def
          split: sum.splits json.splits)
  qed
qed

lemma try_cart:
  "cart (performBasketUpdate_try u s) =
     (if refetches u s
      then (case fst (getWooCommerceCart (snd (await (upd u s)))) of Inl e \<Rightarrow> cart s | Inr j \<Rightarrow> j)
      else cart s)"
proof (cases "upd u s")
  case (Pair r1 s1)
  have s1: "cart s1 = cart s"
    using update_keeps(1) [of "endpoint u" "updateMethod u" "Some (requestPayload u)" s] Pair by simp
  show ?thesis
  proof (cases "getWooCommerceCart (commit s1)")
    case g: (Pair r2 s2)
    have s2: "cart s2 = cart s1"
      using get_keeps(1) [of "commit s1"] g by (simp add: commit_def)
    show ?thesis
      using Pair g s1 s2
      by (simp add: performBasketUpdate_try_def refetches_def await_def commit_def removeItem_def Let_def
          split: sum.splits json.splits)
  qed
qed

lemma refetches_iff:
  "refetches u s \<longleftrightarrow>
     (\<exists>r rest. responses s = Responded r # rest \<and> ok r \<and>
        (updateMethod u = ''DELETE'' \<or> (\<exists>j. jsonBody r = Some j \<and> truthy j)))"
  by (auto simp add: refetches_def update_result request_result truthy_def
      split: list.splits fetch_result.splits option.splits)

lemma refetches_isSyncing [simp]: "refetches u (s\<lparr>isSyncing := b\<rparr>) = refetches u s"
  by (simp add: refetches_iff)

lemma failed_exchange_no_refetch:
  "failed_exchange (responses s) \<Longrightarrow> \<not> refetches u s"
  by (auto simp add: failed_exchange_def refetches_iff)

lemma try_issued:
  "map wire (issued s (performBasketUpdate_try u s)) =
     (updateMethod u, storeUrl s (endpoint u), Some (requestPayload u)) #
       (if refetches u s then [(''GET'', storeUrl s ''/cart'', None)] else [])"
proof -
  have "activeBusiness (snd (await (upd u s))) = activeBusiness s"
    by (simp add: await_simps update_keeps)
  then have "storeUrl (snd (await (upd u s))) ''/cart'' = storeUrl s ''/cart''"
    by (rule storeUrl_cong)
  then show ?thesis
    by (simp add: issued_append [OF try_sent] wire_requestConfig)
qed

lemma try_responses:
  "responses (performBasketUpdate_try u s) =
     (if refetches u s then tl (tl (responses s)) else tl (responses s))"
proof (cases "upd u s")
  case (Pair r1 s1)
  have s1: "responses s1 = tl (responses s)"
    using update_keeps(7) [of "endpoint u" "updateMethod u" "Some (requestPayload u)" s] Pair by simp
  show ?thesis
  proof (cases "getWooCommerceCart (commit s1)")
    case g: (Pair r2 s2)
    have s2: "responses s2 = tl (responses s1)"
      using get_keeps(7) [of "commit s1"] g by (simp add: commit_def)
    show ?thesis
      using Pair g s1 s2
      by (simp add: performBasketUpdate_try_def refetches_def await_def commit_def removeItem_def Let_def
          split: sum.splits json.splits)
  qed
qed

lemma try_isSyncing:
  "isSyncing (performBasketUpdate_try u s) = isSyncing s"
proof (cases "upd u s")
  case (Pair r1 s1)
  have s1: "isSyncing s1 = isSyncing s"
    using update_keeps(4) [of "endpoint u" "updateMethod u" "Some (requestPayload u)" s] Pair by simp
  show ?thesis
  proof (cases "getWooCommerceCart (commit s1)")
    case g: (Pair r2 s2)
    have s2: "isSyncing s2 = isSyncing s1"
      using get_keeps(4) [of "commit s1"] g by (simp add: commit_def)
    show ?thesis
      using Pair g s1 s2
      by (simp add: performBasketUpdate_try_def refetches_def await_def commit_def removeItem_def Let_def
          split: sum.splits json.splits)
  qed
qed

lemma try_keeps:
  shows "activeBusiness (performBasketUpdate_try u s) = activeBusiness s"
    and "pendingItem (performBasketUpdate_try u s) = pendingItem s"
    and "conflictModalVisible (performBasketUpdate_try u s) = conflictModalVisible s"
proof -
  obtain r1 s1 where p: "upd u s = (r1, s1)"
    by (cases "upd u s")
  obtain r2 s2 where g: "getWooCommerceCart (commit s1) = (r2, s2)"
    by (cases "getWooCommerceCart (commit s1)")
  have k1: "activeBusiness s1 = activeBusiness s" "pendingItem s1 = pendingItem s"
    "conflictModalVisible s1 = conflictModalVisible s"
    using update_keeps [of "endpoint u" "updateMethod u" "Some (requestPayload u)" s] p by simp_all
  have k2: "activeBusiness s2 = activeBusiness s1" "pendingItem s2 = pendingItem s1"
    "conflictModalVisible s2 = conflictModalVisible s1"
    using get_keeps [of "commit s1"] g by (simp_all add: commit_def)
  show "activeBusiness (performBasketUpdate_try u s) = activeBusiness s"
    and "pendingItem (performBasketUpdate_try u s) = pendingItem s"
    and "conflictModalVisible (performBasketUpdate_try u s) = conflictModalVisible s"
    using p g k1 k2
    by (simp_all add: performBasketUpdate_try_def await_def commit_def removeItem_def Let_def
        split: sum.splits json.splits)
qed

lemma try_origin:
  "originBusiness (performBasketUpdate_try u s) =
     (if refetches u s
      then (case fst (getWooCommerceCart (snd (await (upd u s)))) of
              Inr (JCart c) \<Rightarrow> if items_count c = 0 then None else originBusiness s
            | _ \<Rightarrow> originBusiness s)
      else originBusiness s)"
proof -
  obtain r1 s1 where p: "upd u s = (r1, s1)"
    by (cases "upd u s")
  obtain r2 s2 where g: "getWooCommerceCart (commit s1) = (r2, s2)"
    by (cases "getWooCommerceCart (commit s1)")
  have k1: "originBusiness s1 = originBusiness s"
    using update_keeps [of "endpoint u" "updateMethod u" "Some (requestPayload u)" s] p by simp
  have k2: "originBusiness s2 = originBusiness s1"
    using get_keeps [of "commit s1"] g by (simp add: commit_def)
  show ?thesis
    using p g k1 k2
    by (simp add: performBasketUpdate_try_def refetches_def await_def commit_def removeItem_def
        Let_def split: sum.splits json.splits)
qed

lemma perform_state:
  assumes "getCartUpdateEndpoint pid q (cartRef s) = Inr u" and "endpoint u \<noteq> []"
  shows "performBasketUpdate pid q s =
           (Inr (), (performBasketUpdate_try u (s\<lparr>isSyncing := True\<rparr>))\<lparr>isSyncing := False\<rparr>)"
  using assms by (simp add: performBasketUpdate_def)

lemma perform_issued:
  assumes "getCartUpdateEndpoint pid q (cartRef s) = Inr u" and "endpoint u \<noteq> []"
  shows "map wire (issued s (snd (performBasketUpdate pid q s))) =
     (updateMethod u, storeUrl s (endpoint u), Some (requestPayload u)) #
       (if refetches u s then [(''GET'', storeUrl s ''/cart'', None)] else [])"
  using try_issued [of "s\<lparr>isSyncing := True\<rparr>" u]
  by (simp add: perform_state [OF assms])

lemma perform_sends:
  assumes "getCartUpdateEndpoint pid q (cartRef s) = Inr u" and "endpoint u \<noteq> []"
  shows "sends_mutation s (snd (performBasketUpdate pid q s))
           (updateMethod u, storeUrl s (endpoint u), Some (requestPayload u))"
  by (simp add: sends_mutation_def perform_issued [OF assms])

lemma perform_sent:
  "sent (snd (performBasketUpdate pid q s)) = sent s @ issued s (snd (performBasketUpdate pid q s))"
  by (simp add: performBasketUpdate_def Let_def issued_def try_sent split: sum.splits)

lemma fetched_after:
  assumes "responses s = Responded r1 # Responded r2 # rest" and "ok r2" and "jsonBody r2 = Some fetched"
  shows "fst (getWooCommerceCart (snd (await (upd u s)))) = Inr fetched"
  using assms by (simp add: get_result request_result await_simps update_keeps)

lemma perform_cart:
  assumes "getCartUpdateEndpoint pid q (cartRef s) = Inr u" and "endpoint u \<noteq> []"
    and "responses s = Responded r1 # Responded r2 # rest"
    and "ok r1" and "updateMethod u = ''DELETE'' \<or> (\<exists>j. jsonBody r1 = Some j \<and> truthy j)"
    and "ok r2" and "jsonBody r2 = Some fetched"
  shows "cart (snd (performBasketUpdate pid q s)) = fetched"
    and "map wire (issued s (snd (performBasketUpdate pid q s))) =
          [(updateMethod u, storeUrl s (endpoint u), Some (requestPayload u)),
           (''GET'', storeUrl s ''/cart'', None)]"
proof -
  have r: "refetches u s"
    using assms(3-5) by (simp add: refetches_iff)
  have f: "fst (getWooCommerceCart (snd (await (upd u (s\<lparr>isSyncing := True\<rparr>))))) = Inr fetched"
    using assms(3,6,7) by (intro fetched_after [where ?r1.0 = r1 and rest = rest]) simp_all
  show "cart (snd (performBasketUpdate pid q s)) = fetched"
    using r f by (simp add: perform_state [OF assms(1,2)] try_cart)
  show "map wire (issued s (snd (performBasketUpdate pid q s))) =
          [(updateMethod u, storeUrl s (endpoint u), Some (requestPayload u)),
           (''GET'', storeUrl s ''/cart'', None)]"
    using r by (simp add: perform_issued [OF assms(1,2)])
qed

lemma perform_origin:
  assumes "getCartUpdateEndpoint pid q (cartRef s) = Inr u" and "endpoint u \<noteq> []"
    and "responses s = Responded r1 # Responded r2 # rest"
    and "ok r1" and "updateMethod u = ''DELETE'' \<or> (\<exists>j. jsonBody r1 = Some j \<and> truthy j)"
    and "ok r2" and "jsonBody r2 = Some fetched"
  shows "originBusiness (snd (performBasketUpdate pid q s)) =
           (case fetched of
              JCart c \<Rightarrow> if items_count c = 0 then None else originBusiness s
            | _ \<Rightarrow> originBusiness s)"
    and "responses (snd (performBasketUpdate pid q s)) = rest"
proof -
  have r: "refetches u s"
    using assms(3-5) by (simp add: refetches_iff)
  have f: "fst (getWooCommerceCart (snd (await (upd u (s\<lparr>isSyncing := True\<rparr>))))) = Inr fetched"
    using assms(3,6,7) by (intro fetched_after [where ?r1.0 = r1 and rest = rest]) simp_all
  show "originBusiness (snd (performBasketUpdate pid q s)) =
           (case fetched of
              JCart c \<Rightarrow> if items_count c = 0 then None else originBusiness s
            | _ \<Rightarrow> originBusiness s)"
    using r f by (simp add: perform_state [OF assms(1,2)] try_origin split: json.splits)
  show "responses (snd (performBasketUpdate pid q s)) = rest"
    using r assms(3) by (simp add: perform_state [OF assms(1,2)] try_responses)
qed

lemma perform_keeps:
  shows "activeBusiness (snd (performBasketUpdate pid q s)) = activeBusiness s"
    and "pendingItem (snd (performBasketUpdate pid q s)) = pendingItem s"
    and "conflictModalVisible (snd (performBasketUpdate pid q s)) = conflictModalVisible s"
  by (simp_all add: performBasketUpdate_def Let_def try_keeps split: sum.splits)

section \<open>Properties of \<^verbatim>\<open>updateBasket\<close>\<close>

lemma updateBasket_activeBusiness:
  "activeBusiness (snd (updateBasket pid q s)) = activeBusiness s"
  by (simp add: updateBasket_def updateBasket_enter_def await_simps perform_keeps
      await_def commit_def setItem_def split: option.splits)

lemma enter_keeps:
  assumes "updateBasket_enter pid q s = (a, s1)"
  shows "sent s1 = sent s" and "responses s1 = responses s" and "activeBusiness s1 = activeBusiness s"
    and "cart s1 = cart s" and "isSyncing s1 = isSyncing s"
  using assms
  by (auto simp add: updateBasket_enter_def await_def commit_def setItem_def
      split: if_splits option.splits)

lemma updateBasket_admitted:
  "updateBasket_enter pid q s = (Admitted, s1) \<Longrightarrow>
   updateBasket pid q s = await (performBasketUpdate pid q s1)"
  by (simp add: updateBasket_def)

lemma updateBasket_sends:
  assumes "updateBasket_enter pid q s = (Admitted, s1)"
    and "getCartUpdateEndpoint pid q (cartRef s1) = Inr u" and "endpoint u \<noteq> []"
  shows "sends_mutation s (snd (updateBasket pid q s))
           (updateMethod u, storeUrl s (endpoint u), Some (requestPayload u))"
proof -
  note k = enter_keeps [OF assms(1)]
  have url: "storeUrl s1 p = storeUrl s p" for p
    using k(3) by (rule storeUrl_cong)
  show ?thesis
    using perform_sends [OF assms(2,3)]
    by (simp add: sends_mutation_def updateBasket_admitted [OF assms(1)] await_simps issued_def
        k(1) url)
qed

lemma updateBasket_success:
  assumes "updateBasket_enter pid q s = (Admitted, s1)"
    and "getCartUpdateEndpoint pid q (cartRef s1) = Inr u" and "endpoint u \<noteq> []"
    and "responses s = Responded r1 # Responded r2 # rest"
    and "ok r1" and "updateMethod u = ''DELETE'' \<or> (\<exists>j. jsonBody r1 = Some j \<and> truthy j)"
    and "ok r2" and "jsonBody r2 = Some fetched"
  shows "map wire (issued s (snd (updateBasket pid q s))) =
           [(updateMethod u, storeUrl s (endpoint u), Some (requestPayload u)),
            (''GET'', storeUrl s ''/cart'', None)]
         \<and> cart (snd (updateBasket pid q s)) = fetched
         \<and> cartRef (snd (updateBasket pid q s)) = fetched
         \<and> responses (snd (updateBasket pid q s)) = rest
         \<and> \<not> isSyncing (snd (updateBasket pid q s))"
proof -
  note k = enter_keeps [OF assms(1)]
  have r: "responses s1 = Responded r1 # Responded r2 # rest"
    using assms(4) k(2) by simp
  note c = perform_cart [OF assms(2,3) r assms(5-8)]
  have url: "storeUrl s1 p = storeUrl s p" for p
    using k(3) by (rule storeUrl_cong)
  have rf: "refetches u s1"
    using r assms(5,6) by (simp add: refetches_iff)
  have "responses (snd (performBasketUpdate pid q s1)) = rest"
    using rf r by (simp add: perform_state [OF assms(2,3)] try_responses)
  moreover have "\<not> isSyncing (snd (performBasketUpdate pid q s1))"
    by (simp add: perform_state [OF assms(2,3)])
  ultimately show ?thesis
    using c by (simp add: updateBasket_admitted [OF assms(1)] await_simps url
        issued_def k(1))
qed

section \<open>Properties of the conflict dialog\<close>

lemma handleClearAndAdd_state:
  assumes "pendingItem s = Some (pid, q)" and "activeBusiness s = Some b"
    and "truthy_string (cartTokenRef s)" and "responses s = Responded r # rest" and "ok r"
  shows "\<exists>mid. handleClearAndAdd s =
            (Inr (), (snd (await (performBasketUpdate pid q mid)))\<lparr>isSyncing := False\<rparr>)
          \<and> sent mid = sent s @ issued s mid
          \<and> map wire (issued s mid) = [(''DELETE'', storeUrl s ''/cart/items'', Some EmptyObject)]
          \<and> responses mid = rest
          \<and> cart mid = JNull \<and> cartRef mid = JNull
          \<and> originBusiness mid = Some b \<and> activeBusiness mid = Some b
          \<and> storage mid ORIGIN_BUSINESS_STORAGE = Some (StoredBusiness b)
          \<and> pendingItem mid = None \<and> \<not> conflictModalVisible mid"
proof -
  let ?s1 = "s\<lparr>pendingItem := None, conflictModalVisible := False, isSyncing := True\<rparr>"
  obtain r1 s2 where c: "clearCart ?s1 = (r1, s2)"
    by (cases "clearCart ?s1")
  have t: "truthy_string (cartTokenRef ?s1)"
    using assms(3) by simp
  have res: "r1 = Inr (Some JEmptyArray)"
    using clear_with_token(3) [OF t] c assms(4,5) by (simp add: request_result)
  have k: "sent s2 = sent s @ [requestConfig ''/cart/items'' store ''DELETE'' (Some EmptyObject) [] None ?s1]"
    "responses s2 = rest" "activeBusiness s2 = Some b" "pendingItem s2 = None"
    "\<not> conflictModalVisible s2"
    using clear_with_token(1,2) [OF t] clear_keeps [of ?s1] c assms by simp_all
  let ?s3 = "(commit s2)\<lparr>cart := JNull\<rparr>"
  let ?mid = "snd (await (setItem ORIGIN_BUSINESS_STORAGE (StoredBusiness b)
                            (?s3\<lparr>originBusiness := Some b\<rparr>)))"
  have h: "handleClearAndAdd s =
            (Inr (), (snd (await (performBasketUpdate pid q ?mid)))\<lparr>isSyncing := False\<rparr>)"
    using assms(1) c res k(3)
    by (simp add: handleClearAndAdd_def Let_def await_def commit_def)
  have u: "storeUrl (s\<lparr>pendingItem := None, conflictModalVisible := False\<rparr>) ''/cart/items''
      = storeUrl s ''/cart/items''"
    by (rule storeUrl_cong) simp
  have w: "map wire (issued s ?mid) = [(''DELETE'', storeUrl s ''/cart/items'', Some EmptyObject)]"
    using k(1) by (simp add: issued_def await_def commit_def setItem_def wire_requestConfig u)
  have w0: "sent ?mid = sent s @ issued s ?mid"
    using k(1) by (simp add: issued_def await_def commit_def setItem_def)
  have rest: "responses ?mid = rest" "cart ?mid = JNull" "cartRef ?mid = JNull"
    "originBusiness ?mid = Some b" "activeBusiness ?mid = Some b"
    "storage ?mid ORIGIN_BUSINESS_STORAGE = Some (StoredBusiness b)"
    "pendingItem ?mid = None" "\<not> conflictModalVisible ?mid"
    using k by (simp_all add: await_def commit_def setItem_def)
  show ?thesis
    by (rule exI [of _ ?mid]) (simp only: h w w0 [symmetric] rest simp_thms)
qed

section \<open>Properties of \<^verbatim>\<open>reorderItems\<close>\<close>

lemmas keeps_origin =
  await_simps(9) clear_keeps(2) get_keeps(2) batch_keeps(2)

lemma reorder_try_origin:
  "originBusiness (snd (reorderItems_try itms s)) = originBusiness s"
  by (simp add: reorderItems_try_def case_prod_beta Let_def keeps_origin
      split: sum.splits)

lemma reorder_origin:
  "originBusiness (snd (reorderItems itms s)) = originBusiness s"
  by (simp add: reorderItems_def case_prod_beta Let_def keeps_origin reorder_try_origin
      split: sum.splits)

lemma cleared_responses:
  "responses (cleared s) =
     (if truthy_string (cartTokenRef s) then tl (responses s) else responses s)"
  by (simp add: cleared_def await_simps clear_responses)

lemma cleared_sent:
  "sent (cleared s) =
     sent s @ (if truthy_string (cartTokenRef s)
               then [requestConfig ''/cart/items'' store ''DELETE'' (Some EmptyObject) [] None
                       (s\<lparr>isSyncing := True\<rparr>)]
               else [])"
  by (simp add: cleared_def await_simps clear_sent)

lemma cleared_keeps:
  "activeBusiness (cleared s) = activeBusiness s"
  "cart (cleared s) = cart s"
  by (simp_all add: cleared_def await_simps clear_keeps)

lemma cleared_token:
  assumes "truthy_string (cartTokenRef s)" and "responses s = Responded r1 # rest"
  shows "getCartToken (cleared s) = tokenAfter r1 s"
  using assms
  by (simp add: getCartToken_def cleared_def await_simps clearCart_def case_prod_beta
      request_cartToken tokenAfter_def Let_def split: sum.splits)

lemma batched_responses:
  "responses (batched itms s) = tl (responses (cleared s))"
  by (simp add: batched_def await_simps batch_keeps)

lemma batched_sent:
  "sent (batched itms s) =
     sent (cleared s) @ [requestConfig ''/batch'' store ''POST'' (Some (batchOf itms s)) [] None (cleared s)]"
  by (simp add: batched_def await_simps batch_sent)

lemma batched_keeps:
  "activeBusiness (batched itms s) = activeBusiness s"
  by (simp add: batched_def await_simps batch_keeps cleared_keeps)

lemma reorder_run:
  assumes "\<not> isSyncing s" and "itms \<noteq> []"
    and "fst (clearCart (s\<lparr>isSyncing := True\<rparr>)) = Inr v"
    and "responses (cleared s) = x2 # Responded r3 # rest"
    and "ok r3" and "jsonBody r3 = Some fetched"
  shows "reorderItems itms s =
           (Inr (), (snd (await (getWooCommerceCart (batched itms s))))
                      \<lparr>cart := fetched, isSyncing := False\<rparr>)"
proof -
  have g: "fst (getWooCommerceCart (batched itms s)) = Inr fetched"
    using assms(4-6) by (simp add: get_result request_result batched_responses)
  show ?thesis
    using assms(1-3) g
    by (simp add: reorderItems_def reorderItems_try_def case_prod_beta Let_def await_simps
        cleared_def [symmetric] batchOf_def [symmetric] batched_def [symmetric]
        split: sum.splits)
qed

lemma reorder_run_empty:
  assumes "\<not> isSyncing s"
    and "fst (clearCart (s\<lparr>isSyncing := True\<rparr>)) = Inr v"
    and "responses (cleared s) = Responded r2 # rest"
    and "ok r2" and "jsonBody r2 = Some fetched"
  shows "reorderItems [] s =
           (Inr (), (snd (await (getWooCommerceCart (cleared s))))
                      \<lparr>cart := fetched, isSyncing := False\<rparr>)"
proof -
  have g: "fst (getWooCommerceCart (cleared s)) = Inr fetched"
    using assms(3-5) by (simp add: get_result request_result)
  show ?thesis
    using assms(1,2) g
    by (simp add: reorderItems_def reorderItems_try_def case_prod_beta Let_def await_simps
        cleared_def [symmetric] split: sum.splits)
qed

lemma reorder_wire:
  assumes "\<not> isSyncing s" and "itms \<noteq> []"
    and "fst (clearCart (s\<lparr>isSyncing := True\<rparr>)) = Inr v"
    and "responses (cleared s) = x2 # Responded r3 # rest"
    and "ok r3" and "jsonBody r3 = Some fetched"
  shows "map wire (issued s (snd (reorderItems itms s))) =
           (if truthy_string (cartTokenRef s)
            then [(''DELETE'', storeUrl s ''/cart/items'', Some EmptyObject)] else []) @
           [(''POST'', storeUrl s ''/batch'', Some (batchOf itms s)),
            (''GET'', storeUrl s ''/cart'', None)]"
proof -
  have u: "storeUrl (cleared s) p = storeUrl s p" "storeUrl (batched itms s) p = storeUrl s p" for p
    by (simp_all add: storeUrl_def baseUrl_def cleared_keeps batched_keeps)
  show ?thesis
    by (simp add: reorder_run [OF assms] await_simps get_sent batched_sent cleared_sent
        issued_def wire_requestConfig u)
qed

lemma reorder_try_batch_failure:
  assumes "itms \<noteq> []"
    and "fst (clearCart (s\<lparr>isSyncing := True\<rparr>)) = Inr v"
    and "responses (cleared s) = Responded r2 # rest"
    and "ok r2" and "jsonBody r2 = Some (JBatch (Some sts))"
    and "filter (\<lambda>st. 400 \<le> st) sts \<noteq> []"
  shows "fst (reorderItems_try itms (s\<lparr>isSyncing := True\<rparr>)) =
           Inl (BatchError (length (filter (\<lambda>st. 400 \<le> st) sts)))"
proof -
  have b: "fst (sendWooCommerceCartBatch (batchOf itms s) (cleared s)) = Inr (JBatch (Some sts))"
    using assms(3-5) by (simp add: batch_result request_result)
  show ?thesis
    using assms(1,2,6) b
    by (simp add: reorderItems_try_def case_prod_beta Let_def await_simps failedRequests_def
        cleared_def [symmetric] batchOf_def [symmetric] batched_def [symmetric])
qed

section \<open>Claims\<close>

text \<open>
  C1 (as amended). After any sequence of earlier basket updates, an admitted update whose
  mutation is answered with a success status and a truthy body (any body for a
  \<^verbatim>\<open>DELETE\<close>), and whose following fetch succeeds, sends exactly the mutation and then
  \<^verbatim>\<open>GET /cart\<close>, and the local cart is the body of that fetch.
\<close>

theorem refetch_after_mutation:
  assumes "s = updateAll ops s0"
    and "updateBasket_enter pid q s = (Admitted, s1)"
    and "getCartUpdateEndpoint pid q (cartRef s1) = Inr u" and "endpoint u \<noteq> []"
    and "responses s = Responded r1 # Responded r2 # rest"
    and "ok r1" and "updateMethod u = ''DELETE'' \<or> (\<exists>j. jsonBody r1 = Some j \<and> truthy j)"
    and "ok r2" and "jsonBody r2 = Some fetched"
  shows "map wire (issued s (snd (updateBasket pid q s))) =
           [(updateMethod u, storeUrl s (endpoint u), Some (requestPayload u)),
            (''GET'', storeUrl s ''/cart'', None)]
         \<and> cart (snd (updateBasket pid q s)) = fetched
         \<and> cartRef (snd (updateBasket pid q s)) = fetched
         \<and> responses (snd (updateBasket pid q s)) = rest
         \<and> \<not> isSyncing (snd (updateBasket pid q s))"
  by (rule updateBasket_success [OF assms(2-9)])

text \<open>
  Product 42 is added and then removed; after the removal the cart is the fetched one.
\<close>

theorem refetch_after_mutation_witness:
  "map wire (issued (updateAll [(42, 1)] addThenRemove)
       (snd (updateBasket 42 0 (updateAll [(42, 1)] addThenRemove)))) =
     [(''DELETE'', ''https://a.example/wp-json/wc/store/v1/cart/items/abc'', Some EmptyObject),
      (''GET'', ''https://a.example/wp-json/wc/store/v1/cart'', None)]
   \<and> cart (snd (updateBasket 42 0 (updateAll [(42, 1)] addThenRemove))) = JCart emptyCart"
proof -
  let ?s0 = addThenRemove
  let ?s1 = "snd (updateBasket 42 1 ?s0)"
  let ?add = "\<lparr>endpoint = ''/cart/add-item'', requestPayload = AddItem (toString 42) 1,
               updateMethod = ''POST''\<rparr>"
  let ?del = "\<lparr>endpoint = ''/cart/items/abc'', requestPayload = EmptyObject,
               updateMethod = ''DELETE''\<rparr>"
  let ?e0 = "snd (updateBasket_enter 42 1 ?s0)"
  have e0: "updateBasket_enter 42 1 ?s0 = (Admitted, ?e0)"
    by (simp add: addThenRemove_def idle_def updateBasket_enter_def itemCount_def emptyCart_def)
  have c0: "cartRef ?e0 = JCart emptyCart"
    by (simp add: addThenRemove_def idle_def updateBasket_enter_def itemCount_def emptyCart_def
        await_def commit_def setItem_def)
  have u0: "getCartUpdateEndpoint 42 1 (cartRef ?e0) = Inr ?add"
    by (simp add: c0 getCartUpdateEndpoint_def emptyCart_def)
  have r0: "responses ?s0 =
      Responded \<lparr>status = 201, responseHeaders = [], jsonBody = Some JOther\<rparr> #
      Responded \<lparr>status = 200, responseHeaders = [], jsonBody = Some (JCart (cartWith 42 ''abc'' 1))\<rparr> #
      [respond 200 [] JOther, respond 200 [] (JCart emptyCart)]"
    by (simp add: addThenRemove_def idle_def respond_def)
  have first: "cart ?s1 = JCart (cartWith 42 ''abc'' 1)
      \<and> cartRef ?s1 = JCart (cartWith 42 ''abc'' 1)
      \<and> responses ?s1 = [respond 200 [] JOther, respond 200 [] (JCart emptyCart)]
      \<and> \<not> isSyncing ?s1"
    using refetch_after_mutation [of ?s0 "[]" ?s0 42 1 ?e0 ?add, OF _ e0 u0 _ r0]
    by (simp add: ok_def truthy_def)
  have e1: "updateBasket_enter 42 0 ?s1 = (Admitted, ?s1)"
    using first by (simp add: updateBasket_enter_def)
  have u1: "getCartUpdateEndpoint 42 0 (cartRef ?s1) = Inr ?del"
    using first by (simp add: getCartUpdateEndpoint_def cartWith_def)
  have r1: "responses ?s1 =
      Responded \<lparr>status = 200, responseHeaders = [], jsonBody = Some JOther\<rparr> #
      Responded \<lparr>status = 200, responseHeaders = [], jsonBody = Some (JCart emptyCart)\<rparr> # []"
    using first by (simp add: respond_def)
  have url: "storeUrl ?s1 ''/cart/items/abc'' = ''https://a.example/wp-json/wc/store/v1/cart/items/abc''"
      "storeUrl ?s1 ''/cart'' = ''https://a.example/wp-json/wc/store/v1/cart''"
    by (simp_all add: storeUrl_def baseUrl_def updateBasket_activeBusiness addThenRemove_def
        idle_def shopA_def fullEndpoint_def slash_def startsWith_def endsWith_def)
  from refetch_after_mutation [of ?s1 "[(42, 1)]" ?s0 42 0 ?s1 ?del, OF _ e1 u1 _ r1]
  show ?thesis
    by (simp add: ok_def url)
qed

text \<open>
  The claim as stated fails when the add is answered with status 200 and the body
  \<^verbatim>\<open>null\<close>: no \<^verbatim>\<open>GET /cart\<close> follows, the local cart stays empty, and the answer that a
  fetch would get (the cart with product 42) is never asked for.
\<close>

theorem null_body_skips_refetch:
  "map wire (issued nullBodyScenario (snd (updateBasket 42 1 nullBodyScenario))) =
     [(''POST'', ''https://a.example/wp-json/wc/store/v1/cart/add-item'', Some (AddItem ''42'' 1))]
   \<and> cart (snd (updateBasket 42 1 nullBodyScenario)) = JCart emptyCart
   \<and> responses (snd (updateBasket 42 1 nullBodyScenario)) =
       [respond 200 [] (JCart (cartWith 42 ''abc'' 1))]"
proof -
  let ?s0 = nullBodyScenario
  let ?e0 = "snd (updateBasket_enter 42 1 ?s0)"
  let ?add = "\<lparr>endpoint = ''/cart/add-item'', requestPayload = AddItem (toString 42) 1,
               updateMethod = ''POST''\<rparr>"
  have e0: "updateBasket_enter 42 1 ?s0 = (Admitted, ?e0)"
    by (simp add: nullBodyScenario_def idle_def updateBasket_enter_def itemCount_def emptyCart_def)
  note k = enter_keeps [OF e0]
  have c0: "cartRef ?e0 = JCart emptyCart"
    by (simp add: nullBodyScenario_def idle_def updateBasket_enter_def itemCount_def emptyCart_def
        await_def commit_def setItem_def)
  have u0: "getCartUpdateEndpoint 42 1 (cartRef ?e0) = Inr ?add"
    by (simp add: c0 getCartUpdateEndpoint_def emptyCart_def)
  have r0: "responses ?e0 =
      [respond 200 [] JNull, respond 200 [] (JCart (cartWith 42 ''abc'' 1))]"
    by (simp only: k(2)) (simp add: nullBodyScenario_def idle_def)
  have n: "\<not> refetches ?add ?e0"
    by (simp add: refetches_iff r0 respond_def truthy_def)
  have url: "storeUrl ?e0 ''/cart/add-item'' = ''https://a.example/wp-json/wc/store/v1/cart/add-item''"
    by (simp only: storeUrl_cong [OF k(3)])
      (simp add: storeUrl_def baseUrl_def nullBodyScenario_def
        idle_def shopA_def fullEndpoint_def slash_def startsWith_def endsWith_def)
  have t: "toString 42 = ''42''"
    by (simp add: toString_def digit_def)
  have 1: "map wire (issued ?s0 (snd (updateBasket 42 1 ?s0))) =
     [(''POST'', ''https://a.example/wp-json/wc/store/v1/cart/add-item'', Some (AddItem ''42'' 1))]"
    using perform_issued [OF u0] n
    by (simp add: updateBasket_admitted [OF e0] await_simps issued_def k url t)
  have 2: "cart (snd (updateBasket 42 1 ?s0)) = JCart emptyCart"
    using n by (simp add: updateBasket_admitted [OF e0] await_simps perform_state [OF u0]
        try_cart k(4)) (simp add: nullBodyScenario_def idle_def)
  have 3: "responses (snd (updateBasket 42 1 ?s0)) = [respond 200 [] (JCart (cartWith 42 ''abc'' 1))]"
    using n by (simp add: updateBasket_admitted [OF e0] await_simps perform_state [OF u0]
        try_responses r0)
  show ?thesis
    using 1 2 3 by simp
qed






text \<open>
  C4. The invariant of the claim does not hold of the code. After a batch reorder into an
  empty basket the cart holds three items and no origin is recorded: \<^verbatim>\<open>reorderItems\<close> never
  sets (or clears) \<^verbatim>\<open>originBusiness\<close>, which only \<^verbatim>\<open>updateBasket\<close>, \<^verbatim>\<open>performBasketUpdate\<close> and
  \<^verbatim>\<open>handleClearAndAdd\<close> do. And a first add that fails on the network leaves the origin
  recorded for an empty basket, since \<^verbatim>\<open>updateBasket\<close> records it before the request.
\<close>

theorem reorder_leaves_origin_unset:
  "itemCount reorderScenario = 0 \<and> originBusiness reorderScenario = None
   \<and> itemCount (snd (reorderItems previousOrder reorderScenario)) = 3
   \<and> originBusiness (snd (reorderItems previousOrder reorderScenario)) = None
   \<and> itemCount (snd (updateBasket 42 1 offline)) = 0
   \<and> originBusiness (snd (updateBasket 42 1 offline)) = Some shopA"
proof -
  let ?s = reorderScenario
  have h: "\<not> isSyncing ?s" "truthy_string (cartTokenRef ?s)" "previousOrder \<noteq> []"
    "responses ?s = Responded \<lparr>status = 200, responseHeaders = [], jsonBody = Some JOther\<rparr> #
       respond 207 [] (JBatch (Some [201, 201])) #
       Responded \<lparr>status = 200, responseHeaders = [], jsonBody = Some (JCart reorderedCart)\<rparr> # []"
    "itemCount ?s = 0" "originBusiness ?s = None"
    by (simp_all add: reorderScenario_def idle_def truthy_string_def respond_def previousOrder_def
        itemCount_def emptyCart_def)
  have c: "fst (clearCart (?s\<lparr>isSyncing := True\<rparr>)) = Inr (Some JEmptyArray)"
    using h(2,4) by (simp add: clear_result request_result ok_def)
  have r: "responses (cleared ?s) = respond 207 [] (JBatch (Some [201, 201])) #
       Responded \<lparr>status = 200, responseHeaders = [], jsonBody = Some (JCart reorderedCart)\<rparr> # []"
    using h(2,4) by (simp add: cleared_responses)
  have "cart (snd (reorderItems previousOrder ?s)) = JCart reorderedCart"
    by (simp add: reorder_run [OF h(1,3) c r] ok_def)
  then have 1: "itemCount (snd (reorderItems previousOrder ?s)) = 3"
    by (simp add: itemCount_def reorderedCart_def)
  let ?e = "snd (updateBasket_enter 42 1 offline)"
  let ?add = "\<lparr>endpoint = ''/cart/add-item'', requestPayload = AddItem (toString 42) 1,
               updateMethod = ''POST''\<rparr>"
  have e: "updateBasket_enter 42 1 offline = (Admitted, ?e)" "cartRef ?e = JCart emptyCart"
    "cart ?e = JCart emptyCart" "originBusiness ?e = Some shopA" "responses ?e = []"
    by (simp_all add: offline_def idle_def updateBasket_enter_def itemCount_def emptyCart_def
        await_def commit_def setItem_def)
  have u: "getCartUpdateEndpoint 42 1 (cartRef ?e) = Inr ?add"
    by (simp add: e(2) getCartUpdateEndpoint_def emptyCart_def)
  have n: "\<not> refetches ?add ?e"
    by (simp add: refetches_iff e(5))
  have 2: "cart (snd (updateBasket 42 1 offline)) = JCart emptyCart"
    "originBusiness (snd (updateBasket 42 1 offline)) = Some shopA"
    using n e(3,4)
    by (simp_all add: updateBasket_admitted [OF e(1)] await_simps perform_state [OF u] try_cart
        try_origin)
  then have 3: "itemCount (snd (updateBasket 42 1 offline)) = 0"
    by (simp add: itemCount_def emptyCart_def)
  show ?thesis
    using h(5,6) 1 2(2) 3 by (simp add: reorder_origin)
qed






text \<open>
  C7 (as amended). When the exchange of a cart mutation fails in transport or with a
  non-success status, the API service throws, \<^verbatim>\<open>performBasketUpdate\<close> catches and logs the
  error, and \<^verbatim>\<open>updateBasket\<close> completes normally: one request was sent (no retry, no fetch)
  and the local cart is unchanged. A batch with a failed sub-request makes the \<^verbatim>\<open>try\<close> block
  of \<^verbatim>\<open>reorderItems\<close> throw; the \<^verbatim>\<open>catch\<close> fetches the cart, stores it, and does not throw again.
\<close>

theorem mutation_failures_are_caught:
  assumes "updateBasket_enter pid q s = (Admitted, s1)"
    and "getCartUpdateEndpoint pid q (cartRef s1) = Inr u" and "endpoint u \<noteq> []"
    and "failed_exchange (responses s)"
  shows "(\<exists>e. fst (upd u (s1\<lparr>isSyncing := True\<rparr>)) = Inl e)
       \<and> fst (updateBasket pid q s) = Inr ()
       \<and> cart (snd (updateBasket pid q s)) = cart s
       \<and> map wire (issued s (snd (updateBasket pid q s))) =
           [(updateMethod u, storeUrl s (endpoint u), Some (requestPayload u))]
       \<and> \<not> isSyncing (snd (updateBasket pid q s))
       \<and> (\<forall>itms r1 r2 r3 rest sts fetched.
            \<not> isSyncing s' \<and> truthy_string (cartTokenRef s') \<and> itms \<noteq> [] \<and>
            responses s' = Responded r1 # Responded r2 # Responded r3 # rest \<and>
            ok r1 \<and> ok r2 \<and> jsonBody r2 = Some (JBatch (Some sts)) \<and>
            (\<exists>st \<in> set sts. 400 \<le> st) \<and> ok r3 \<and> jsonBody r3 = Some fetched \<longrightarrow>
            (\<exists>n. fst (reorderItems_try itms (s'\<lparr>isSyncing := True\<rparr>)) = Inl (BatchError n))
            \<and> fst (reorderItems itms s') = Inr ()
            \<and> last (map wire (sent (snd (reorderItems itms s')))) = (''GET'', storeUrl s' ''/cart'', None)
            \<and> cart (snd (reorderItems itms s')) = fetched)"
proof -
  note k = enter_keeps [OF assms(1)]
  have f: "failed_exchange (responses (s1\<lparr>isSyncing := True\<rparr>))" "failed_exchange (responses s1)"
    using assms(4) k(2) by simp_all
  have 1: "\<exists>e. fst (upd u (s1\<lparr>isSyncing := True\<rparr>)) = Inl e"
    using f(1) by (rule failed_exchange_throws)
  have n: "\<not> refetches u s1"
    using f(2) by (rule failed_exchange_no_refetch)
  have url: "storeUrl s1 p = storeUrl s p" for p
    using k(3) by (rule storeUrl_cong)
  have 2: "fst (updateBasket pid q s) = Inr ()"
    by (simp add: updateBasket_admitted [OF assms(1)] await_simps perform_state [OF assms(2,3)])
  have 3: "cart (snd (updateBasket pid q s)) = cart s"
    using n by (simp add: updateBasket_admitted [OF assms(1)] await_simps
        perform_state [OF assms(2,3)] try_cart k(4))
  have 4: "map wire (issued s (snd (updateBasket pid q s))) =
           [(updateMethod u, storeUrl s (endpoint u), Some (requestPayload u))]"
    using perform_issued [OF assms(2,3)] n
    by (simp add: updateBasket_admitted [OF assms(1)] await_simps issued_def k(1) url)
  have 5: "\<not> isSyncing (snd (updateBasket pid q s))"
    by (simp add: updateBasket_admitted [OF assms(1)] await_simps perform_state [OF assms(2,3)])
  have 6: "(\<exists>n. fst (reorderItems_try itms (s'\<lparr>isSyncing := True\<rparr>)) = Inl (BatchError n))
            \<and> fst (reorderItems itms s') = Inr ()
            \<and> last (map wire (sent (snd (reorderItems itms s')))) = (''GET'', storeUrl s' ''/cart'', None)
            \<and> cart (snd (reorderItems itms s')) = fetched"
    if h: "\<not> isSyncing s' \<and> truthy_string (cartTokenRef s') \<and> itms \<noteq> [] \<and>
            responses s' = Responded r1 # Responded r2 # Responded r3 # rest \<and>
            ok r1 \<and> ok r2 \<and> jsonBody r2 = Some (JBatch (Some sts)) \<and>
            (\<exists>st \<in> set sts. 400 \<le> st) \<and> ok r3 \<and> jsonBody r3 = Some fetched"
    for itms r1 r2 r3 rest sts fetched
  proof -
    have c: "fst (clearCart (s'\<lparr>isSyncing := True\<rparr>)) = Inr (Some JEmptyArray)"
      using h by (simp add: clear_result request_result)
    have r: "responses (cleared s') = Responded r2 # Responded r3 # rest"
      using h by (simp add: cleared_responses)
    have a: "\<not> isSyncing s'" "itms \<noteq> []" "ok r3" "jsonBody r3 = Some fetched" "ok r2"
      "jsonBody r2 = Some (JBatch (Some sts))"
      using h by simp_all
    have fl: "filter (\<lambda>st. 400 \<le> st) sts \<noteq> []"
      using h by (auto simp add: filter_empty_conv)
    note run = reorder_run [OF a(1,2) c r a(3,4)]
    have u: "storeUrl (batched itms s') ''/cart'' = storeUrl s' ''/cart''"
      by (rule storeUrl_cong) (simp add: batched_keeps)
    have "\<exists>n. fst (reorderItems_try itms (s'\<lparr>isSyncing := True\<rparr>)) = Inl (BatchError n)"
      using reorder_try_batch_failure [OF a(2) c r a(5,6) fl] by simp
    moreover have "fst (reorderItems itms s') = Inr ()" "cart (snd (reorderItems itms s')) = fetched"
      by (simp_all add: run)
    moreover have "last (map wire (sent (snd (reorderItems itms s')))) =
        (''GET'', storeUrl s' ''/cart'', None)"
      by (simp add: run await_simps get_sent wire_requestConfig u)
    ultimately show ?thesis
      by simp
  qed
  show ?thesis
    by (intro conjI allI impI; (rule 1 | rule 2 | rule 3 | rule 4 | rule 5
          | (drule 6, simp)))
qed

text \<open>
  An update of the quantity of product 42 answered with status 500, and a reorder whose
  second sub-request fails.
\<close>

theorem mutation_failures_are_caught_witness:
  "failed_exchange (responses rejected)
   \<and> fst (upd \<lparr>endpoint = ''/cart/items/abc'', requestPayload = SetQuantity 3,
               updateMethod = ''PUT''\<rparr> (rejected\<lparr>isSyncing := True\<rparr>)) = Inl (ApiError 500)
   \<and> fst (updateBasket 42 3 rejected) = Inr ()
   \<and> cart (snd (updateBasket 42 3 rejected)) = JCart (cartWith 42 ''abc'' 1)
   \<and> map wire (issued rejected (snd (updateBasket 42 3 rejected))) =
       [(''PUT'', ''https://a.example/wp-json/wc/store/v1/cart/items/abc'', Some (SetQuantity 3))]
   \<and> fst (reorderItems previousOrder partialFailure) = Inr ()
   \<and> cart (snd (reorderItems previousOrder partialFailure)) = JCart (cartWith 7 ''k7'' 2)"
proof -
  let ?s = rejected
  let ?put = "\<lparr>endpoint = ''/cart/items/abc'', requestPayload = SetQuantity 3,
               updateMethod = ''PUT''\<rparr>"
  let ?r1 = "\<lparr>status = 200, responseHeaders = [], jsonBody = Some JOther\<rparr>"
  let ?r2 = "\<lparr>status = 207, responseHeaders = [], jsonBody = Some (JBatch (Some [201, 404]))\<rparr>"
  let ?r3 = "\<lparr>status = 200, responseHeaders = [], jsonBody = Some (JCart (cartWith 7 ''k7'' 2))\<rparr>"
  have h: "updateBasket_enter 42 3 ?s = (Admitted, ?s)" "cartRef ?s = JCart (cartWith 42 ''abc'' 1)"
    "responses ?s = [respond 500 [] JOther]" "cart ?s = JCart (cartWith 42 ''abc'' 1)"
    "activeBusiness ?s = Some shopA"
    by (simp_all add: rejected_def idle_def updateBasket_enter_def itemCount_def cartWith_def
        differentBusiness_def)
  have e: "getCartUpdateEndpoint 42 3 (cartRef ?s) = Inr ?put"
    by (simp add: h(2) getCartUpdateEndpoint_def cartWith_def)
  have f: "failed_exchange (responses ?s)"
    by (simp add: h(3) failed_exchange_def respond_def ok_def)
  have p: "\<not> isSyncing partialFailure \<and> truthy_string (cartTokenRef partialFailure) \<and>
      previousOrder \<noteq> [] \<and>
      responses partialFailure = Responded ?r1 # Responded ?r2 # Responded ?r3 # [] \<and>
      ok ?r1 \<and> ok ?r2 \<and> jsonBody ?r2 = Some (JBatch (Some [201, 404])) \<and>
      (\<exists>st \<in> set [201, 404]. (400::nat) \<le> st) \<and> ok ?r3 \<and>
      jsonBody ?r3 = Some (JCart (cartWith 7 ''k7'' 2))"
    by (simp add: partialFailure_def idle_def truthy_string_def respond_def previousOrder_def
        ok_def)
  note t = mutation_failures_are_caught [OF h(1) e _ f, of partialFailure]
  have a: "fst (upd ?put (?s\<lparr>isSyncing := True\<rparr>)) = Inl (ApiError 500)"
    by (simp add: update_result request_result h(3) respond_def ok_def)
  have u: "storeUrl ?s ''/cart/items/abc'' = ''https://a.example/wp-json/wc/store/v1/cart/items/abc''"
    using h(5)
    by (simp add: storeUrl_def baseUrl_def shopA_def fullEndpoint_def slash_def startsWith_def
        endsWith_def)
  have 1: "fst (updateBasket 42 3 ?s) = Inr ()
     \<and> cart (snd (updateBasket 42 3 ?s)) = JCart (cartWith 42 ''abc'' 1)
     \<and> map wire (issued ?s (snd (updateBasket 42 3 ?s))) =
       [(''PUT'', ''https://a.example/wp-json/wc/store/v1/cart/items/abc'', Some (SetQuantity 3))]"
    using t by (simp add: h(4) u)
  have 2: "fst (reorderItems previousOrder partialFailure) = Inr ()
     \<and> cart (snd (reorderItems previousOrder partialFailure)) = JCart (cartWith 7 ''k7'' 2)"
    using t [THEN conjunct2, THEN conjunct2, THEN conjunct2, THEN conjunct2, THEN conjunct2,
        rule_format, OF _ p]
    by simp
  show ?thesis
    using f a 1 2 by simp
qed

text \<open>
  The claim as stated fails: with the network down the service call throws, yet
  \<^verbatim>\<open>updateBasket\<close> returns normally; and the batch failure thrown inside \<^verbatim>\<open>reorderItems\<close>
  does not leave it.
\<close>

theorem failures_do_not_reach_caller:
  "fst (sendWooCommerceCartUpdate ''/cart/add-item'' ''POST'' (Some (AddItem ''42'' 1)) offline) =
     Inl NetworkError
   \<and> fst (updateBasket 42 1 offline) = Inr ()
   \<and> fst (reorderItems_try previousOrder (partialFailure\<lparr>isSyncing := True\<rparr>)) =
       Inl (BatchError 1)
   \<and> fst (reorderItems previousOrder partialFailure) = Inr ()"
proof -
  let ?r1 = "\<lparr>status = 200, responseHeaders = [], jsonBody = Some JOther\<rparr>"
  let ?r2 = "\<lparr>status = 207, responseHeaders = [], jsonBody = Some (JBatch (Some [201, 404]))\<rparr>"
  let ?r3 = "\<lparr>status = 200, responseHeaders = [], jsonBody = Some (JCart (cartWith 7 ''k7'' 2))\<rparr>"
  let ?e = "snd (updateBasket_enter 42 1 offline)"
  let ?add = "\<lparr>endpoint = ''/cart/add-item'', requestPayload = AddItem (toString 42) 1,
               updateMethod = ''POST''\<rparr>"
  have 1: "fst (sendWooCommerceCartUpdate ''/cart/add-item'' ''POST'' (Some (AddItem ''42'' 1))
      offline) = Inl NetworkError"
    by (simp add: update_result request_result offline_def idle_def)
  have e: "updateBasket_enter 42 1 offline = (Admitted, ?e)" "cartRef ?e = JCart emptyCart"
    by (simp_all add: offline_def idle_def updateBasket_enter_def itemCount_def emptyCart_def
        await_def commit_def setItem_def)
  have u: "getCartUpdateEndpoint 42 1 (cartRef ?e) = Inr ?add"
    by (simp add: e(2) getCartUpdateEndpoint_def emptyCart_def)
  have 2: "fst (updateBasket 42 1 offline) = Inr ()"
    by (simp add: updateBasket_admitted [OF e(1)] await_simps perform_state [OF u])
  have p: "\<not> isSyncing partialFailure" "truthy_string (cartTokenRef partialFailure)"
    "previousOrder \<noteq> []"
    "responses partialFailure = Responded ?r1 # Responded ?r2 # Responded ?r3 # []"
    by (simp_all add: partialFailure_def idle_def truthy_string_def respond_def previousOrder_def)
  have c: "fst (clearCart (partialFailure\<lparr>isSyncing := True\<rparr>)) = Inr (Some JEmptyArray)"
    using p(2,4) by (simp add: clear_result request_result ok_def)
  have r: "responses (cleared partialFailure) = Responded ?r2 # Responded ?r3 # []"
    using p(2,4) by (simp add: cleared_responses)
  have 3: "fst (reorderItems_try previousOrder (partialFailure\<lparr>isSyncing := True\<rparr>)) =
       Inl (BatchError 1)"
    using reorder_try_batch_failure [OF p(3) c r, of "[201, 404]"] by (simp add: ok_def)
  have 4: "fst (reorderItems previousOrder partialFailure) = Inr ()"
    by (simp add: reorder_run [OF p(1,3) c r] ok_def)
  show ?thesis
    using 1 2 3 4 by simp
qed







text \<open>
  C10. For a request with method \<^verbatim>\<open>DELETE\<close> that the server answers with a success status,
  the request helper returns the empty array whatever body the server sent; and in no
  state at all does a \<^verbatim>\<open>DELETE\<close> hand a cart object to its caller.
\<close>

theorem delete_returns_empty_array:
  assumes "responses s = Responded r # rest" and "ok r"
  shows "fst (request ep apiT ''DELETE'' bdy hdrs ov s) = Inr JEmptyArray
         \<and> (\<forall>s' c. fst (request ep apiT ''DELETE'' bdy hdrs ov s') \<noteq> Inr (JCart c))"
proof
  show "fst (request ep apiT ''DELETE'' bdy hdrs ov s) = Inr JEmptyArray"
    using assms by (rule request_delete_ok)
next
  show "\<forall>s' c. fst (request ep apiT ''DELETE'' bdy hdrs ov s') \<noteq> Inr (JCart c)"
    using request_delete_result by fastforce
qed

text \<open>
  The server answers the clear-cart request with status 200 and the emptied cart as body;
  the caller still gets the empty array.
\<close>

theorem delete_returns_empty_array_witness:
  "responses (idle (JCart (cartWith 7 ''abc'' 2)) None [respond 200 [] (JCart emptyCart)])
     = [respond 200 [] (JCart emptyCart)]
   \<and> fst (request ''/cart/items'' store ''DELETE'' (Some EmptyObject) [] None
            (idle (JCart (cartWith 7 ''abc'' 2)) None [respond 200 [] (JCart emptyCart)]))
     = Inr JEmptyArray"
  using delete_returns_empty_array
    [of "idle (JCart (cartWith 7 ''abc'' 2)) None [respond 200 [] (JCart emptyCart)]"
        "\<lparr>status = 200, responseHeaders = [], jsonBody = Some (JCart emptyCart)\<rparr>" "[]"
        "''/cart/items''" store "Some EmptyObject" "[]" None]
  by (simp add: idle_def respond_def ok_def)

end
